theory Spec2Isabelle
  imports Complex_Main "HOL-Library.Multiset"
begin

section \<open>Values of the host language\<close>

text \<open>
  A JavaScript number is NaN, an infinity or a finite value. The finite doubles are
  embedded in the rationals; the two zeros are one value, which is how \<open>Map\<close> keys,
  \<open>String\<close> and the sign of a difference treat them.
\<close>

datatype jsnum = NaN | NegInf | Fin rat | PosInf

text \<open>The taxonomy document is untyped JSON (\<open>unknown\<close> in the source).\<close>

datatype json =
    JNull
  | JBool bool
  | JNum jsnum
  | JStr string
  | JArr "json list"
  | JObj "(string \<times> json) list"

text \<open>
  \<open>JObj es\<close> carries the entries in the order \<open>Object.entries\<close> enumerates them.
\<close>

subsection \<open>Set, as an insertion-ordered collection\<close>

text \<open>
  \<open>new Set(items)\<close> keeps the first occurrence of every element, in insertion order;
  \<open>Array.from\<close> reads that order back.
\<close>

definition set_add :: "'a list \<Rightarrow> 'a \<Rightarrow> 'a list" where
  "set_add s x = (if x \<in> set s then s else s @ [x])"

definition new_Set :: "'a list \<Rightarrow> 'a list" where
  "new_Set items = foldl set_add [] items"

definition dedupe :: "'a list \<Rightarrow> 'a list" where
  "dedupe items = new_Set items"

subsection \<open>Strings\<close>

fun join :: "string \<Rightarrow> string list \<Rightarrow> string" where
  "join sep [] = []"
| "join sep [x] = x"
| "join sep (x # y # ys) = x @ sep @ join sep (y # ys)"

text \<open>\<open>split\<close> on a one-character pattern: the pieces between the separators, empty ones kept.\<close>

fun split_on :: "(char \<Rightarrow> bool) \<Rightarrow> string \<Rightarrow> string list" where
  "split_on p [] = [[]]"
| "split_on p (c # cs) =
     (if p c then [] # split_on p cs
      else (case split_on p cs of [] \<Rightarrow> [[c]] | w # ws \<Rightarrow> (c # w) # ws))"

text \<open>Case mapping on the ASCII letters; other characters are left as they are.\<close>

definition toUpperCase_char :: "char \<Rightarrow> char" where
  "toUpperCase_char c =
     (let n = (of_char c :: nat)
      in if of_char CHR ''a'' \<le> n \<and> n \<le> of_char CHR ''z'' then char_of (n - 32) else c)"

definition toLowerCase_char :: "char \<Rightarrow> char" where
  "toLowerCase_char c =
     (let n = (of_char c :: nat)
      in if of_char CHR ''A'' \<le> n \<and> n \<le> of_char CHR ''Z'' then char_of (n + 32) else c)"

definition capitalize :: "string \<Rightarrow> string" where
  "capitalize segment = (case segment of [] \<Rightarrow> [] | c # cs \<Rightarrow> toUpperCase_char c # cs)"

definition humanizeKey :: "string \<Rightarrow> string" where
  "humanizeKey key =
     join '' '' (map capitalize
       (filter (\<lambda>segment. segment \<noteq> [])
         (split_on (\<lambda>c. c = CHR ''-'' \<or> c = CHR ''_'') key)))"

section \<open>Category tree\<close>

datatype CategoryNode =
  CategoryNode (node_id: string) (node_label: string) (codes: "string list")
    (ownCodes: "string list") (children: "CategoryNode list")

type_synonym CategoryTree = "CategoryNode list"

text \<open>\<open>value.filter((code) => typeof code === 'string')\<close>\<close>

fun string_entries :: "json list \<Rightarrow> string list" where
  "string_entries [] = []"
| "string_entries (JStr s # vs) = s # string_entries vs"
| "string_entries (_ # vs) = string_entries vs"

fun buildCategoryTree :: "json \<Rightarrow> string list \<Rightarrow> CategoryTree" where
  "buildCategoryTree (JObj es) path =
     map (\<lambda>entry.
       let key = fst entry;
           currentPath = path @ [key];
           ident = join ''/'' currentPath;
           label = humanizeKey key
       in (case snd entry of
             JArr vs \<Rightarrow>
               (let own = dedupe (string_entries vs)
                in CategoryNode ident label own own [])
           | _ \<Rightarrow>
               (let kids = buildCategoryTree (snd entry) currentPath;
                    cs = dedupe (concat (map codes kids))
                in CategoryNode ident label cs [] kids))) es"
| "buildCategoryTree _ path = []"

text \<open>A node followed by all its descendants, in pre-order.\<close>

fun nodes_of :: "CategoryNode \<Rightarrow> CategoryNode list" where
  "nodes_of (CategoryNode i l cs own ch) =
     CategoryNode i l cs own ch # concat (map nodes_of ch)"

definition all_nodes :: "CategoryTree \<Rightarrow> CategoryNode list" where
  "all_nodes tree = concat (map nodes_of tree)"

text \<open>The shape every built node has: a leaf carrying its own codes, or a branch aggregating its children.\<close>

fun tree_inv :: "CategoryNode \<Rightarrow> bool" where
  "tree_inv (CategoryNode i l cs own ch) =
     (((ch = [] \<and> cs = own \<and> distinct own) \<or>
       (own = [] \<and> cs = dedupe (concat (map codes ch)))) \<and>
      (\<forall>c \<in> set ch. tree_inv c))"

section \<open>Category index\<close>

text \<open>
  A \<open>Record<string, T>\<close> is a finite map from the names of its own properties to values.
  Reads of the category code map and of the finished breadcrumb index are taken at own
  properties; what a read finds at a name inherited from \<open>Object.prototype\<close> is modelled
  where the breadcrumb index is built.
\<close>

type_synonym CategoryCodeMap = "string \<rightharpoonup> string list"

type_synonym CodeToCategoryPaths = "string \<rightharpoonup> string list"

fun flatten_visit :: "CategoryNode \<Rightarrow> CategoryCodeMap \<Rightarrow> CategoryCodeMap" where
  "flatten_visit (CategoryNode i l cs own ch) m =
     foldl (\<lambda>m' child. flatten_visit child m') (m(i \<mapsto> cs)) ch"

definition flattenCategoryCodes :: "CategoryTree \<Rightarrow> CategoryCodeMap" where
  "flattenCategoryCodes nodes = foldl (\<lambda>m node. flatten_visit node m) Map.empty nodes"

text \<open>The separator of breadcrumb labels, byte for byte as the source file has it.\<close>

definition path_separator :: string where
  "path_separator =
     [CHR '' '', CHR 0xC3, CHR 0xA2, CHR 0xE2, CHR 0x82, CHR 0xAC, CHR 0xC2, CHR 0xBA, CHR '' '']"

text \<open>
  The index is built in a plain object. A read \<open>map[code]\<close> at a name that the object
  inherits from \<open>Object.prototype\<close> finds the inherited member, whatever the own
  properties are; these are the names of the members every plain object inherits.
\<close>

definition Object_prototype_names :: "string list" where
  "Object_prototype_names =
     [''constructor'', ''__defineGetter__'', ''__defineSetter__'', ''hasOwnProperty'',
      ''__lookupGetter__'', ''__lookupSetter__'', ''isPrototypeOf'', ''propertyIsEnumerable'',
      ''toString'', ''valueOf'', ''__proto__'', ''toLocaleString'']"

definition inherited :: "string \<Rightarrow> bool" where
  "inherited name = (name \<in> set Object_prototype_names)"

datatype js_error = TypeError

text \<open>
  \<open>if (!map[code]) map[code] = new Set(); map[code].add(label)\<close>. At an own property the
  label is added to its Set. At a name that is neither own nor inherited the Set is made
  first. At an inherited name the test finds the member, no Set is made, and the member
  has no \<open>add\<close> to call: a TypeError is thrown.
\<close>

definition register_code ::
    "string \<Rightarrow> (string \<rightharpoonup> string list) \<Rightarrow> string \<Rightarrow> js_error + (string \<rightharpoonup> string list)" where
  "register_code label m c =
     (case m c of
        Some labels \<Rightarrow> Inr (m(c \<mapsto> set_add labels label))
      | None \<Rightarrow>
          if inherited c then Inl TypeError
          else Inr (m(c \<mapsto> set_add [] label)))"

text \<open>A \<open>forEach\<close> ends at the first call that throws; the error is carried through the rest.\<close>

fun paths_visit ::
    "CategoryNode \<Rightarrow> string list \<Rightarrow> (string \<rightharpoonup> string list) \<Rightarrow> js_error + (string \<rightharpoonup> string list)" where
  "paths_visit (CategoryNode i l cs own ch) pathLabels m =
     (let nextPath = pathLabels @ [l];
          r1 = (if own \<noteq> []
                then foldl (\<lambda>r c. case r of
                                     Inl e \<Rightarrow> Inl e
                                   | Inr m' \<Rightarrow> register_code (join path_separator nextPath) m' c)
                       (Inr m) own
                else Inr m)
      in foldl (\<lambda>r child. case r of
                             Inl e \<Rightarrow> Inl e
                           | Inr m' \<Rightarrow> paths_visit child nextPath m')
           r1 ch)"

text \<open>
  \<open>Array.prototype.sort\<close> with a comparison function. A comparison result that is NaN
  counts as zero, and an element moves in front of another one only when the result is
  negative. The language fixes the outcome for a consistent comparison function (the
  stable sorted order); the algorithm here is insertion from the left, which is stable.
  For a comparison function that is not consistent the language leaves the order to the
  host, and the order computed here need not be the host's.
\<close>

fun is_negative :: "jsnum \<Rightarrow> bool" where
  "is_negative NaN = False"
| "is_negative NegInf = True"
| "is_negative (Fin r) = (r < 0)"
| "is_negative PosInf = False"

fun sort_insert :: "('a \<Rightarrow> 'a \<Rightarrow> jsnum) \<Rightarrow> 'a \<Rightarrow> 'a list \<Rightarrow> 'a list" where
  "sort_insert cmp x [] = [x]"
| "sort_insert cmp x (y # ys) =
     (if is_negative (cmp x y) then x # y # ys else y # sort_insert cmp x ys)"

definition js_sort :: "('a \<Rightarrow> 'a \<Rightarrow> jsnum) \<Rightarrow> 'a list \<Rightarrow> 'a list" where
  "js_sort cmp xs = foldl (\<lambda>acc x. sort_insert cmp x acc) [] xs"

text \<open>
  \<open>String.prototype.localeCompare\<close> is the host's collation and is a parameter of every
  function that sorts text.
\<close>

definition buildCodeToCategoryPaths ::
    "(string \<Rightarrow> string \<Rightarrow> jsnum) \<Rightarrow> CategoryTree \<Rightarrow> js_error + CodeToCategoryPaths" where
  "buildCodeToCategoryPaths localeCompare nodes =
     (case foldl (\<lambda>r node. case r of
                               Inl e \<Rightarrow> Inl e
                             | Inr m' \<Rightarrow> paths_visit node [] m')
             (Inr Map.empty) nodes of
        Inl e \<Rightarrow> Inl e
      | Inr m \<Rightarrow> Inr (\<lambda>c. map_option (js_sort localeCompare) (m c)))"

section \<open>Catalog normalizer\<close>

record SceneSettings =
  machine_type :: string
  material_code :: string
  layer_thickness_mm :: jsnum

text \<open>The raw scene settings may carry further fields, which nothing reads.\<close>

record RawSceneSettings = SceneSettings +
  other_fields :: "(string \<times> json) list"

record RawMaterialSetting =
  setting_label :: string
  scene_settings :: RawSceneSettings

record RawMaterial =
  material_label :: string
  description :: string
  material_settings :: "RawMaterialSetting list"

record RawPrinter =
  printer_label :: string
  supported_machine_type_ids :: "string list"
  supported_product_names :: "string list option"
  raw_materials :: "RawMaterial list"

record RawMaterialData =
  printer_types :: "RawPrinter list"

record LayerOption =
  layer_id :: string
  layer_label :: string
  layerThickness :: jsnum
  scene :: SceneSettings

record MaterialOption =
  code :: string
  mat_label :: string
  mat_description :: string
  categoryPaths :: "string list"
  settings :: "LayerOption list"

record PrinterOption =
  printer_id :: string
  prn_label :: string
  machineTypeIds :: "string list"
  productNames :: "string list"
  materials :: "MaterialOption list"

text \<open>\<open>Number(v)\<close> at a value of type \<open>number\<close> is the value itself.\<close>

definition Number :: "jsnum \<Rightarrow> jsnum" where
  "Number v = v"

text \<open>
  The difference of two numbers. On finite operands only its sign is used, which the
  rounded difference of two doubles shares with the exact one.
\<close>

fun js_sub :: "jsnum \<Rightarrow> jsnum \<Rightarrow> jsnum" where
  "js_sub NaN _ = NaN"
| "js_sub _ NaN = NaN"
| "js_sub PosInf PosInf = NaN"
| "js_sub NegInf NegInf = NaN"
| "js_sub PosInf _ = PosInf"
| "js_sub NegInf _ = NegInf"
| "js_sub (Fin a) PosInf = NegInf"
| "js_sub (Fin a) NegInf = PosInf"
| "js_sub (Fin a) (Fin b) = Fin (a - b)"

text \<open>
  \<open>Map\<close>: entries in insertion order; keys are compared by SameValueZero, under which NaN
  is equal to NaN.
\<close>

definition map_has :: "('k \<times> 'v) list \<Rightarrow> 'k \<Rightarrow> bool" where
  "map_has m k = (k \<in> set (map fst m))"

definition map_set :: "('k \<times> 'v) list \<Rightarrow> 'k \<Rightarrow> 'v \<Rightarrow> ('k \<times> 'v) list" where
  "map_set m k v =
     (if map_has m k then map (\<lambda>e. if fst e = k then (k, v) else e) m else m @ [(k, v)])"

definition map_values :: "('k \<times> 'v) list \<Rightarrow> 'v list" where
  "map_values m = map snd m"

text \<open>
  The conversion of a number to text (\<open>String(n)\<close>, a template literal) is the host's
  and is a parameter, \<open>numToString\<close>.
\<close>

definition layer_option :: "(jsnum \<Rightarrow> string) \<Rightarrow> RawMaterialSetting \<Rightarrow> LayerOption" where
  "layer_option numToString setting =
     (let thickness = Number (layer_thickness_mm (scene_settings setting))
      in \<lparr> layer_id = material_code (scene_settings setting) @ ''-'' @ numToString thickness,
           layer_label = setting_label setting,
           layerThickness = thickness,
           scene = \<lparr> machine_type = machine_type (scene_settings setting),
                     material_code = material_code (scene_settings setting),
                     layer_thickness_mm = layer_thickness_mm (scene_settings setting) \<rparr> \<rparr>)"

definition add_setting ::
    "(jsnum \<Rightarrow> string) \<Rightarrow> (jsnum \<times> LayerOption) list \<Rightarrow> RawMaterialSetting \<Rightarrow> (jsnum \<times> LayerOption) list" where
  "add_setting numToString thicknessMap setting =
     (let thickness = Number (layer_thickness_mm (scene_settings setting))
      in if \<not> map_has thicknessMap thickness
         then map_set thicknessMap thickness (layer_option numToString setting)
         else thicknessMap)"

definition buildMaterial ::
    "(jsnum \<Rightarrow> string) \<Rightarrow> CodeToCategoryPaths \<Rightarrow> RawMaterial \<Rightarrow> MaterialOption" where
  "buildMaterial numToString codeToPaths material =
     (let thicknessMap = foldl (add_setting numToString) [] (material_settings material);
          materialCode = (case material_settings material of
                            [] \<Rightarrow> material_label material
                          | first # _ \<Rightarrow> material_code (scene_settings first))
      in \<lparr> code = materialCode,
           mat_label = material_label material,
           mat_description = description material,
           categoryPaths = (case codeToPaths materialCode of None \<Rightarrow> [] | Some ps \<Rightarrow> ps),
           settings = js_sort (\<lambda>a b. js_sub (layerThickness a) (layerThickness b))
                        (map_values thicknessMap) \<rparr>)"

text \<open>\<open>replace(/[^a-z0-9]+/g, '-')\<close>: every run of other characters becomes one hyphen.\<close>

definition is_slug_char :: "char \<Rightarrow> bool" where
  "is_slug_char c =
     (let n = (of_char c :: nat)
      in (of_char CHR ''a'' \<le> n \<and> n \<le> of_char CHR ''z'') \<or>
         (of_char CHR ''0'' \<le> n \<and> n \<le> of_char CHR ''9''))"

fun replace_runs :: "bool \<Rightarrow> string \<Rightarrow> string" where
  "replace_runs in_run [] = []"
| "replace_runs in_run (c # cs) =
     (if is_slug_char c then c # replace_runs False cs
      else if in_run then replace_runs True cs
      else CHR ''-'' # replace_runs True cs)"

definition buildPrinter ::
    "(string \<Rightarrow> string \<Rightarrow> jsnum) \<Rightarrow> (jsnum \<Rightarrow> string) \<Rightarrow> CodeToCategoryPaths \<Rightarrow> RawPrinter
       \<Rightarrow> PrinterOption" where
  "buildPrinter localeCompare numToString codeToPaths printer =
     (let ms = js_sort (\<lambda>a b. localeCompare (mat_label a) (mat_label b))
                 (filter (\<lambda>material. length (settings material) > 0)
                    (map (buildMaterial numToString codeToPaths) (raw_materials printer)));
          printerId = (case supported_machine_type_ids printer of
                         [] \<Rightarrow> replace_runs False (map toLowerCase_char (printer_label printer))
                       | first # _ \<Rightarrow> first)
      in \<lparr> printer_id = printerId,
           prn_label = printer_label printer,
           machineTypeIds = supported_machine_type_ids printer,
           productNames = (case supported_product_names printer of None \<Rightarrow> [] | Some ns \<Rightarrow> ns),
           materials = ms \<rparr>)"

definition buildPrinters ::
    "(string \<Rightarrow> string \<Rightarrow> jsnum) \<Rightarrow> (jsnum \<Rightarrow> string) \<Rightarrow> RawMaterialData \<Rightarrow> CodeToCategoryPaths
       \<Rightarrow> PrinterOption list" where
  "buildPrinters localeCompare numToString data codeToPaths =
     js_sort (\<lambda>a b. localeCompare (prn_label a) (prn_label b))
       (filter (\<lambda>printer. length (materials printer) > 0)
          (map (buildPrinter localeCompare numToString codeToPaths) (printer_types data)))"

section \<open>Selection state and derivations\<close>

record PageState =
  selectedPrinterId :: string
  selectedCategoryIds :: "string list"
  selectedMaterialCode :: string
  selectedThickness :: string

definition selectedPrinter :: "PrinterOption list \<Rightarrow> string \<Rightarrow> PrinterOption option" where
  "selectedPrinter printers pid = List.find (\<lambda>printer. printer_id printer = pid) printers"

definition filteredMaterials ::
    "PrinterOption option \<Rightarrow> string list \<Rightarrow> CategoryCodeMap \<Rightarrow> MaterialOption list" where
  "filteredMaterials selPrinter categoryIds categoryCodeMap =
     (case selPrinter of
        None \<Rightarrow> []
      | Some printer \<Rightarrow>
          if length categoryIds = 0 then materials printer
          else
            (let allowedCodes =
                   foldl (\<lambda>allowed ident.
                            foldl set_add allowed
                              (case categoryCodeMap ident of None \<Rightarrow> [] | Some cs \<Rightarrow> cs))
                     [] categoryIds
             in filter (\<lambda>material. code material \<in> set allowedCodes) (materials printer)))"

text \<open>The two repair effects, each returning the value its setter leaves in the state.\<close>

definition material_effect ::
    "PrinterOption option \<Rightarrow> MaterialOption list \<Rightarrow> string \<Rightarrow> string" where
  "material_effect selPrinter filtered materialCode =
     (case selPrinter of
        None \<Rightarrow> []
      | Some printer \<Rightarrow>
          (let exists = list_ex (\<lambda>material. code material = materialCode) filtered
           in if \<not> exists
              then (case filtered of [] \<Rightarrow> [] | m # _ \<Rightarrow> code m)
              else materialCode))"

definition selectedMaterial :: "MaterialOption list \<Rightarrow> string \<Rightarrow> MaterialOption option" where
  "selectedMaterial filtered materialCode =
     List.find (\<lambda>material. code material = materialCode) filtered"

definition categoryCounts :: "PrinterOption option \<Rightarrow> CategoryCodeMap \<Rightarrow> (string \<rightharpoonup> nat)" where
  "categoryCounts selPrinter categoryCodeMap =
     (case selPrinter of
        None \<Rightarrow> Map.empty
      | Some printer \<Rightarrow>
          (let printerCodes = new_Set (map code (materials printer))
           in (\<lambda>ident.
                 map_option
                   (\<lambda>cs. foldl (\<lambda>count c. if c \<in> set printerCodes then count + 1 else count) 0 cs)
                   (categoryCodeMap ident))))"

definition thickness_effect ::
    "(jsnum \<Rightarrow> string) \<Rightarrow> MaterialOption option \<Rightarrow> string \<Rightarrow> string" where
  "thickness_effect numToString selMaterial thickness =
     (case selMaterial of
        None \<Rightarrow> []
      | Some material \<Rightarrow>
          (let exists = list_ex (\<lambda>setting. numToString (layerThickness setting) = thickness)
                          (settings material)
           in if \<not> exists
              then (case settings material of
                      [] \<Rightarrow> []
                    | s # _ \<Rightarrow> numToString (layerThickness s))
              else thickness))"

definition thicknessOption ::
    "(jsnum \<Rightarrow> string) \<Rightarrow> MaterialOption option \<Rightarrow> string \<Rightarrow> LayerOption option" where
  "thicknessOption numToString selMaterial thickness =
     (case selMaterial of
        None \<Rightarrow> None
      | Some material \<Rightarrow>
          List.find (\<lambda>setting. numToString (layerThickness setting) = thickness)
            (settings material))"

text \<open>
  One render followed by its effects: both effects read the values of the render they
  belong to, and their setters take effect together.
\<close>

definition repair ::
    "(jsnum \<Rightarrow> string) \<Rightarrow> PrinterOption list \<Rightarrow> CategoryCodeMap \<Rightarrow> PageState \<Rightarrow> PageState" where
  "repair numToString printers categoryCodeMap st =
     (let selPrinter = selectedPrinter printers (selectedPrinterId st);
          filtered = filteredMaterials selPrinter (selectedCategoryIds st) categoryCodeMap;
          selMaterial = selectedMaterial filtered (selectedMaterialCode st)
      in st \<lparr> selectedMaterialCode := material_effect selPrinter filtered (selectedMaterialCode st),
              selectedThickness := thickness_effect numToString selMaterial (selectedThickness st) \<rparr>)"

section \<open>Export of the scene settings\<close>

text \<open>
  \<open>JSON.stringify(value, null, gap)\<close> on a JSON value. Text is a list of bytes, the
  UTF-8 form of the string; a byte above the control range other than the quotation mark and
  the backslash is copied. A number that is not finite is written as \<open>null\<close>; a finite one
  by the host's number-to-text conversion.
\<close>

definition dquote :: char where
  "dquote = CHR 0x22"

definition backslash :: char where
  "backslash = CHR 0x5C"

definition newline :: char where
  "newline = CHR 0x0A"

definition hex_digit :: "nat \<Rightarrow> char" where
  "hex_digit n = (if n < 10 then char_of (48 + n) else char_of (87 + n))"

definition quote_char :: "char \<Rightarrow> string" where
  "quote_char c =
     (let n = (of_char c :: nat)
      in if n = 0x22 then [backslash, dquote]
         else if n = 0x5C then [backslash, backslash]
         else if n = 0x08 then [backslash, CHR ''b'']
         else if n = 0x09 then [backslash, CHR ''t'']
         else if n = 0x0A then [backslash, CHR ''n'']
         else if n = 0x0C then [backslash, CHR ''f'']
         else if n = 0x0D then [backslash, CHR ''r'']
         else if n < 0x20
           then [backslash, CHR ''u'', CHR ''0'', CHR ''0'', hex_digit (n div 16), hex_digit (n mod 16)]
         else [c])"

definition QuoteJSONString :: "string \<Rightarrow> string" where
  "QuoteJSONString s = dquote # concat (map quote_char s) @ [dquote]"

fun serialize :: "(jsnum \<Rightarrow> string) \<Rightarrow> string \<Rightarrow> string \<Rightarrow> json \<Rightarrow> string" where
  "serialize numToString gap indent JNull = ''null''"
| "serialize numToString gap indent (JBool b) = (if b then ''true'' else ''false'')"
| "serialize numToString gap indent (JNum n) =
     (case n of Fin r \<Rightarrow> numToString n | _ \<Rightarrow> ''null'')"
| "serialize numToString gap indent (JStr s) = QuoteJSONString s"
| "serialize numToString gap indent (JArr vs) =
     (if vs = [] then ''[]''
      else if gap = []
        then ''['' @ join '','' (map (serialize numToString gap (indent @ gap)) vs) @ '']''
        else ''['' @ [newline] @ (indent @ gap) @
             join ('','' @ [newline] @ (indent @ gap))
               (map (serialize numToString gap (indent @ gap)) vs) @
             [newline] @ indent @ '']'')"
| "serialize numToString gap indent (JObj es) =
     (if es = [] then ''{}''
      else if gap = []
        then ''{'' @ join '',''
               (map (\<lambda>e. QuoteJSONString (fst e) @ '':'' @
                          serialize numToString gap (indent @ gap) (snd e)) es) @ ''}''
        else ''{'' @ [newline] @ (indent @ gap) @
             join ('','' @ [newline] @ (indent @ gap))
               (map (\<lambda>e. QuoteJSONString (fst e) @ '': '' @
                          serialize numToString gap (indent @ gap) (snd e)) es) @
             [newline] @ indent @ ''}'')"

definition JSON_stringify :: "(jsnum \<Rightarrow> string) \<Rightarrow> json \<Rightarrow> nat \<Rightarrow> string" where
  "JSON_stringify numToString v space = serialize numToString (replicate (min space 10) CHR '' '') [] v"

text \<open>The object literal of \<open>copySceneSettings\<close> and the text handed to the clipboard.\<close>

definition scene_object :: "SceneSettings \<Rightarrow> json" where
  "scene_object sc =
     JObj [(''machine_type'', JStr (machine_type sc)),
           (''material_code'', JStr (material_code sc)),
           (''layer_thickness_mm'', JNum (layer_thickness_mm sc))]"

definition scene_payload :: "(jsnum \<Rightarrow> string) \<Rightarrow> SceneSettings \<Rightarrow> string" where
  "scene_payload numToString sc = JSON_stringify numToString (scene_object sc) 2"

datatype copy_state = idle | copied | error

text \<open>
  \<open>copySceneSettings\<close>: the text written, and the state the callback of the outcome sets;
  \<open>clipboard_accepts\<close> is whether the write to the clipboard is fulfilled.
\<close>

definition copySceneSettings :: "(jsnum \<Rightarrow> string) \<Rightarrow> SceneSettings \<Rightarrow> bool \<Rightarrow> string \<times> copy_state" where
  "copySceneSettings numToString sc clipboard_accepts =
     (scene_payload numToString sc, if clipboard_accepts then copied else error)"

text \<open>
  \<open>JSON.parse\<close> on the fragment the payload lies in: an object whose members are strings,
  numbers, \<open>null\<close>, \<open>true\<close> or \<open>false\<close>. The reading of a number token is the host's and
  is a parameter, \<open>parseNumber\<close>. An escape of a code point beyond ASCII, a repeated key and
  a nested value are outside the fragment, and the result is \<open>None\<close> there as it is for
  text that is not JSON.
\<close>

definition is_ws :: "char \<Rightarrow> bool" where
  "is_ws c = (c = CHR '' '' \<or> c = CHR 0x09 \<or> c = CHR 0x0A \<or> c = CHR 0x0D)"

definition skip_ws :: "string \<Rightarrow> string" where
  "skip_ws s = dropWhile is_ws s"

definition hex_value :: "char \<Rightarrow> nat option" where
  "hex_value c =
     (let n = (of_char c :: nat)
      in if 48 \<le> n \<and> n \<le> 57 then Some (n - 48)
         else if 97 \<le> n \<and> n \<le> 102 then Some (n - 87)
         else if 65 \<le> n \<and> n \<le> 70 then Some (n - 55)
         else None)"

definition unescape :: "char \<Rightarrow> char option" where
  "unescape e =
     (if e = dquote then Some dquote
      else if e = backslash then Some backslash
      else if e = CHR ''/'' then Some CHR ''/''
      else if e = CHR ''b'' then Some (CHR 0x08)
      else if e = CHR ''f'' then Some (CHR 0x0C)
      else if e = CHR ''n'' then Some (CHR 0x0A)
      else if e = CHR ''r'' then Some (CHR 0x0D)
      else if e = CHR ''t'' then Some (CHR 0x09)
      else None)"

definition prepend :: "char \<Rightarrow> (string \<times> string) option \<Rightarrow> (string \<times> string) option" where
  "prepend c r = map_option (\<lambda>p. (c # fst p, snd p)) r"

text \<open>The characters of a string after its opening quotation mark, and the text after the closing one.\<close>

fun parse_string_body :: "string \<Rightarrow> (string \<times> string) option" where
  "parse_string_body [] = None"
| "parse_string_body (c # cs) =
     (if c = dquote then Some ([], cs)
      else if c = backslash then
        (case cs of
           [] \<Rightarrow> None
         | e # cs' \<Rightarrow>
             if e = CHR ''u'' then
               (case cs' of
                  h1 # h2 # h3 # h4 # rest \<Rightarrow>
                    (case (hex_value h1, hex_value h2, hex_value h3, hex_value h4) of
                       (Some a, Some b, Some c', Some d) \<Rightarrow>
                         (let v = ((a * 16 + b) * 16 + c') * 16 + d
                          in if v < 128 then prepend (char_of v) (parse_string_body rest) else None)
                     | _ \<Rightarrow> None)
                | _ \<Rightarrow> None)
             else
               (case unescape e of
                  None \<Rightarrow> None
                | Some ch \<Rightarrow> prepend ch (parse_string_body cs')))
      else if (of_char c :: nat) < 0x20 then None
      else prepend c (parse_string_body cs))"

definition is_number_char :: "char \<Rightarrow> bool" where
  "is_number_char c =
     (let n = (of_char c :: nat)
      in (48 \<le> n \<and> n \<le> 57) \<or> c = CHR ''-'' \<or> c = CHR ''+'' \<or> c = CHR ''.'' \<or>
         c = CHR ''e'' \<or> c = CHR ''E'')"

definition parse_scalar :: "(string \<Rightarrow> jsnum option) \<Rightarrow> string \<Rightarrow> (json \<times> string) option" where
  "parse_scalar parseNumber s =
     (case s of
        [] \<Rightarrow> None
      | c # cs \<Rightarrow>
          if c = dquote then map_option (\<lambda>p. (JStr (fst p), snd p)) (parse_string_body cs)
          else if take 4 s = ''null'' then Some (JNull, drop 4 s)
          else if take 4 s = ''true'' then Some (JBool True, drop 4 s)
          else if take 5 s = ''false'' then Some (JBool False, drop 5 s)
          else
            (let tok = takeWhile is_number_char s
             in if tok = [] then None
                else map_option (\<lambda>n. (JNum n, dropWhile is_number_char s)) (parseNumber tok)))"

fun parse_members ::
    "nat \<Rightarrow> (string \<Rightarrow> jsnum option) \<Rightarrow> string \<Rightarrow> ((string \<times> json) list \<times> string) option" where
  "parse_members 0 parseNumber s = None"
| "parse_members (Suc fuel) parseNumber s =
     (case skip_ws s of
        [] \<Rightarrow> None
      | c # cs \<Rightarrow>
          if c \<noteq> dquote then None
          else
            (case parse_string_body cs of
               None \<Rightarrow> None
             | Some (key, r1) \<Rightarrow>
                 (case skip_ws r1 of
                    [] \<Rightarrow> None
                  | c2 # r2 \<Rightarrow>
                      if c2 \<noteq> CHR '':'' then None
                      else
                        (case parse_scalar parseNumber (skip_ws r2) of
                           None \<Rightarrow> None
                         | Some (v, r3) \<Rightarrow>
                             (case skip_ws r3 of
                                [] \<Rightarrow> None
                              | c3 # r4 \<Rightarrow>
                                  if c3 = CHR '','' then
                                    map_option (\<lambda>p. ((key, v) # fst p, snd p))
                                      (parse_members fuel parseNumber r4)
                                  else if c3 = CHR ''}'' then Some ([(key, v)], r4)
                                  else None)))))"

definition JSON_parse :: "(string \<Rightarrow> jsnum option) \<Rightarrow> string \<Rightarrow> json option" where
  "JSON_parse parseNumber s =
     (case skip_ws s of
        [] \<Rightarrow> None
      | c # cs \<Rightarrow>
          if c \<noteq> CHR ''{'' then None
          else
            (case skip_ws cs of
               [] \<Rightarrow> None
             | c' # r \<Rightarrow>
                 if c' = CHR ''}'' then (if skip_ws r = [] then Some (JObj []) else None)
                 else
                   (case parse_members (length s) parseNumber cs of
                      None \<Rightarrow> None
                    | Some (ms, r') \<Rightarrow>
                        if skip_ws r' = [] \<and> distinct (map fst ms) then Some (JObj ms) else None)))"

text \<open>The text of a number in the output: \<open>null\<close> unless the number is finite.\<close>

definition number_text :: "(jsnum \<Rightarrow> string) \<Rightarrow> jsnum \<Rightarrow> string" where
  "number_text numToString n = (case n of Fin r \<Rightarrow> numToString n | _ \<Rightarrow> ''null'')"

section \<open>Notions used in the statements\<close>









text \<open>The aggregated codes recorded for a category id; none for an unknown id.\<close>

definition codes_of_category :: "CategoryCodeMap \<Rightarrow> string \<Rightarrow> string list" where
  "codes_of_category categoryCodeMap ident =
     (case categoryCodeMap ident of None \<Rightarrow> [] | Some cs \<Rightarrow> cs)"

text \<open>
  The count in the words of the specification: the materials of the printer whose code is
  among the given aggregated codes.
\<close>

definition materials_in_category :: "PrinterOption \<Rightarrow> string list \<Rightarrow> nat" where
  "materials_in_category printer cs =
     length (filter (\<lambda>material. code material \<in> set cs) (materials printer))"

text \<open>The texts under which the layer options of a material are offered for selection.\<close>

definition thickness_values :: "(jsnum \<Rightarrow> string) \<Rightarrow> MaterialOption \<Rightarrow> string set" where
  "thickness_values numToString material =
     (\<lambda>setting. numToString (layerThickness setting)) ` set (settings material)"

text \<open>The memoized views \<open>filteredMaterials\<close> and \<open>selectedMaterial\<close> of the page at a state.\<close>

definition current_filtered ::
    "PrinterOption list \<Rightarrow> CategoryCodeMap \<Rightarrow> PageState \<Rightarrow> MaterialOption list" where
  "current_filtered printers cm st =
     filteredMaterials (selectedPrinter printers (selectedPrinterId st)) (selectedCategoryIds st) cm"

definition current_material ::
    "PrinterOption list \<Rightarrow> CategoryCodeMap \<Rightarrow> PageState \<Rightarrow> MaterialOption option" where
  "current_material printers cm st =
     selectedMaterial (current_filtered printers cm st) (selectedMaterialCode st)"

text \<open>The key under which a raw setting enters the thickness map.\<close>

definition setting_thickness :: "RawMaterialSetting \<Rightarrow> jsnum" where
  "setting_thickness setting = Number (layer_thickness_mm (scene_settings setting))"

text \<open>The order of numbers: NaN is neither below nor above any number.\<close>

fun js_less :: "jsnum \<Rightarrow> jsnum \<Rightarrow> bool" where
  "js_less NaN _ = False"
| "js_less _ NaN = False"
| "js_less NegInf NegInf = False"
| "js_less NegInf _ = True"
| "js_less (Fin a) NegInf = False"
| "js_less (Fin a) (Fin b) = (a < b)"
| "js_less (Fin a) PosInf = True"
| "js_less PosInf _ = False"






section \<open>Example data\<close>

text \<open>
  A comparison function to run the index on: code-unit order, one of the orders a host may
  implement \<open>localeCompare\<close> with.
\<close>

fun ordinal_compare :: "string \<Rightarrow> string \<Rightarrow> jsnum" where
  "ordinal_compare [] [] = Fin 0"
| "ordinal_compare [] (y # ys) = Fin (- 1)"
| "ordinal_compare (x # xs) [] = Fin 1"
| "ordinal_compare (x # xs) (y # ys) =
     (if (of_char x :: nat) < of_char y then Fin (- 1)
      else if (of_char y :: nat) < of_char x then Fin 1
      else ordinal_compare xs ys)"

text \<open>
  The host's number-to-text conversion at the values the examples use.
\<close>

definition example_numToString :: "jsnum \<Rightarrow> string" where
  "example_numToString n =
     (case n of
        NaN \<Rightarrow> ''NaN''
      | NegInf \<Rightarrow> ''-Infinity''
      | PosInf \<Rightarrow> ''Infinity''
      | Fin r \<Rightarrow> (if r = 1 / 10 then ''0.1'' else if r = 1 / 20 then ''0.05''
                  else if r = 1 / 40 then ''0.025'' else ''0''))"

text \<open>The host's reading of number tokens at the values the examples use.\<close>

definition example_parseNumber :: "string \<Rightarrow> jsnum option" where
  "example_parseNumber tok =
     (if tok = ''0.1'' then Some (Fin (1 / 10))
      else if tok = ''0.05'' then Some (Fin (1 / 20))
      else if tok = ''0.025'' then Some (Fin (1 / 40))
      else if tok = ''0'' then Some (Fin 0)
      else None)"

text \<open>A raw setting without further fields.\<close>

definition raw_setting :: "string \<Rightarrow> string \<Rightarrow> string \<Rightarrow> jsnum \<Rightarrow> RawMaterialSetting" where
  "raw_setting lab mt mc th =
     \<lparr> setting_label = lab,
       scene_settings = \<lparr> machine_type = mt, material_code = mc, layer_thickness_mm = th,
                          other_fields = [] \<rparr> \<rparr>"

text \<open>A taxonomy in the shape of the bundled one, with a repeated and a non-string entry.\<close>

definition example_entries :: "(string \<times> json) list" where
  "example_entries =
     [(''dental'', JObj [(''models'',
         JArr [JStr ''RS-F2-DM'', JNull, JStr ''RS-F2-IND'', JStr ''RS-F2-DM''])]),
      (''castable'', JArr [JStr ''RS-F2-CW'']),
      (''misc'', JStr ''none'')]"

definition example_taxonomy :: json where
  "example_taxonomy = JObj example_entries"

definition example_index :: CodeToCategoryPaths where
  "example_index =
     (case buildCodeToCategoryPaths ordinal_compare (buildCategoryTree example_taxonomy []) of
        Inl e \<Rightarrow> Map.empty
      | Inr idx \<Rightarrow> idx)"

definition example_codeMap :: CategoryCodeMap where
  "example_codeMap = flattenCategoryCodes (buildCategoryTree example_taxonomy [])"

text \<open>A printer two of whose materials resolve to the same material code.\<close>

definition example_raw_shared_code :: RawMaterialData where
  "example_raw_shared_code =
     \<lparr> printer_types =
         [\<lparr> printer_label = ''Form 3'',
            supported_machine_type_ids = [''FORM-3-0''],
            supported_product_names = None,
            raw_materials =
              [\<lparr> material_label = ''Dental Model'', description = ''first'',
                 material_settings = [raw_setting ''0.100 mm'' ''FORM-3-0'' ''RS-F2-DM'' (Fin (1 / 10))] \<rparr>,
               \<lparr> material_label = ''Dental Model V2'', description = ''second'',
                 material_settings = [raw_setting ''0.050 mm'' ''FORM-3-0'' ''RS-F2-DM'' (Fin (1 / 20))] \<rparr>] \<rparr>] \<rparr>"

definition example_printers_shared_code :: "PrinterOption list" where
  "example_printers_shared_code =
     buildPrinters ordinal_compare example_numToString example_raw_shared_code
       example_index"

text \<open>
  A catalog with one printer. The first material has two settings at thickness 0.1 and a
  setting with another material code; the other materials have one setting each, and the
  code of the last one is in no category.
\<close>

definition example_raw :: RawMaterialData where
  "example_raw =
     \<lparr> printer_types =
         [\<lparr> printer_label = ''Form 4'',
            supported_machine_type_ids = [''FORM-4-0''],
            supported_product_names = Some [''Form 4'', ''Form 4B''],
            raw_materials =
              [\<lparr> material_label = ''Dental Model'', description = ''models'',
                 material_settings =
                   [raw_setting ''0.100 mm'' ''FORM-4-0'' ''RS-F2-DM'' (Fin (1 / 10)),
                    raw_setting ''0.100 mm draft'' ''FORM-4-0'' ''RS-F2-DM-D'' (Fin (1 / 10)),
                    raw_setting ''0.050 mm'' ''FORM-4-0'' ''RS-F2-DM-V2'' (Fin (1 / 20))] \<rparr>,
               \<lparr> material_label = ''Castable Wax'', description = ''casting'',
                 material_settings =
                   [raw_setting ''0.025 mm'' ''FORM-4-0'' ''RS-F2-CW'' (Fin (1 / 40))] \<rparr>,
               \<lparr> material_label = ''Grey Resin'', description = ''general purpose'',
                 material_settings =
                   [raw_setting ''0.100 mm'' ''FORM-4-0'' ''RS-F2-GP'' (Fin (1 / 10))] \<rparr>] \<rparr>] \<rparr>"

definition example_printers :: "PrinterOption list" where
  "example_printers =
     buildPrinters ordinal_compare example_numToString example_raw
       example_index"

text \<open>A state left behind by a change of the category filter: the selected material is filtered out.\<close>

definition example_state :: PageState where
  "example_state =
     \<lparr> selectedPrinterId = ''FORM-4-0'', selectedCategoryIds = [''castable''],
       selectedMaterialCode = ''RS-F2-DM'', selectedThickness = ''0.1'' \<rparr>"

text \<open>Materials with a setting whose thickness is NaN, before and after a setting at 0.1.\<close>

definition example_raw_nan_first :: RawMaterial where
  "example_raw_nan_first =
     \<lparr> material_label = ''Draft Resin'', description = ''draft'',
       material_settings =
         [raw_setting ''unknown'' ''FORM-4-0'' ''RS-F2-DR'' NaN,
          raw_setting ''0.100 mm'' ''FORM-4-0'' ''RS-F2-DR'' (Fin (1 / 10))] \<rparr>"

definition example_raw_nan_last :: RawMaterial where
  "example_raw_nan_last =
     \<lparr> material_label = ''Draft Resin'', description = ''draft'',
       material_settings =
         [raw_setting ''0.100 mm'' ''FORM-4-0'' ''RS-F2-DR'' (Fin (1 / 10)),
          raw_setting ''unknown'' ''FORM-4-0'' ''RS-F2-DR'' NaN] \<rparr>"

definition example_raw_nan_only :: RawMaterial where
  "example_raw_nan_only =
     \<lparr> material_label = ''Draft Resin'', description = ''draft'',
       material_settings =
         [raw_setting ''unknown'' ''FORM-4-0'' ''RS-F2-DR'' NaN,
          raw_setting ''unknown too'' ''FORM-4-0'' ''RS-F2-DR-B'' NaN] \<rparr>"

definition example_raw_material :: RawMaterial where
  "example_raw_material = hd (raw_materials (hd (printer_types example_raw)))"

definition example_scene :: SceneSettings where
  "example_scene =
     \<lparr> machine_type = ''FORM-4-0'', material_code = ''RS-F2-DM'', layer_thickness_mm = Fin (1 / 10) \<rparr>"



section \<open>Properties of the category tree\<close>

lemma set_foldl_set_add: "set (foldl set_add acc xs) = set acc \<union> set xs"
  by (induction xs arbitrary: acc) (auto simp: set_add_def)

lemma distinct_foldl_set_add: "distinct acc \<Longrightarrow> distinct (foldl set_add acc xs)"
  by (induction xs arbitrary: acc) (auto simp: set_add_def)

lemma set_new_Set: "set (new_Set xs) = set xs"
  by (simp add: new_Set_def set_foldl_set_add)

lemma distinct_new_Set: "distinct (new_Set xs)"
  by (simp add: new_Set_def distinct_foldl_set_add)

lemma set_dedupe: "set (dedupe xs) = set xs"
  by (simp add: dedupe_def set_new_Set)

lemma distinct_dedupe: "distinct (dedupe xs)"
  by (simp add: dedupe_def distinct_new_Set)

lemma dedupe_Nil: "dedupe [] = []"
  by (simp add: dedupe_def new_Set_def)

lemma set_string_entries: "set (string_entries vs) = {s. JStr s \<in> set vs}"
  by (induction vs rule: string_entries.induct) auto

lemma nodes_of_self: "n \<in> set (nodes_of n)"
  by (cases n) simp

lemma nodes_of_children:
  "set (nodes_of n) = insert n (\<Union>c \<in> set (children n). set (nodes_of c))"
  by (cases n) auto

lemma build_tree_inv: "n \<in> set (buildCategoryTree doc path) \<Longrightarrow> tree_inv n"
proof (induction doc path arbitrary: n rule: buildCategoryTree.induct)
  case (1 es path)
  from "1.prems" obtain entry where e: "entry \<in> set es"
    and n: "n = (let key = fst entry; currentPath = path @ [key];
              ident = join ''/'' currentPath; label = humanizeKey key
          in case snd entry of
             JArr vs \<Rightarrow>
               let own = dedupe (string_entries vs)
               in CategoryNode ident label own own []
             | _ \<Rightarrow> let kids = buildCategoryTree (snd entry) currentPath;
                       cs = dedupe (concat (map codes kids))
                   in CategoryNode ident label cs [] kids)"
    by auto
  show ?case
  proof (cases "snd entry")
    case (JArr vs)
    then show ?thesis using n by (simp add: Let_def distinct_dedupe)
  next
    case JNull
    then show ?thesis using n by (simp add: Let_def)
  next
    case (JBool b)
    then show ?thesis using n by (simp add: Let_def)
  next
    case (JNum x)
    then show ?thesis using n by (simp add: Let_def)
  next
    case (JStr s)
    then show ?thesis using n by (simp add: Let_def)
  next
    case (JObj sub)
    have "\<forall>c \<in> set (buildCategoryTree (snd entry) (path @ [fst entry])). tree_inv c"
      using "1.IH"(5)[OF e refl refl refl refl JObj] by blast
    then show ?thesis using n JObj by (simp add: Let_def del: buildCategoryTree.simps)
  qed
qed simp_all

lemma tree_inv_sub: "tree_inv n \<Longrightarrow> m \<in> set (nodes_of n) \<Longrightarrow> tree_inv m"
proof (induction n arbitrary: m)
  case (CategoryNode i l cs own ch)
  then show ?case by (auto)
qed

lemma tree_inv_distinct: "tree_inv n \<Longrightarrow> distinct (codes n)"
  by (cases n) (auto simp: distinct_dedupe)

lemma tree_inv_codes: "tree_inv n \<Longrightarrow> set (codes n) = (\<Union>l \<in> set (nodes_of n). set (ownCodes l))"
proof (induction n)
  case (CategoryNode i l cs own ch)
  have kids: "\<And>c. c \<in> set ch \<Longrightarrow> set (codes c) = (\<Union>l \<in> set (nodes_of c). set (ownCodes l))"
    using CategoryNode by simp
  from CategoryNode.prems
  consider (leaf) "ch = []" "cs = own" | (branch) "own = []" "cs = dedupe (concat (map codes ch))"
    by auto
  then show ?case
  proof cases
    case leaf
    then show ?thesis by simp
  next
    case branch
    have "set cs = (\<Union>c \<in> set ch. set (codes c))"
      using branch by (simp add: set_dedupe)
    also have "\<dots> = (\<Union>c \<in> set ch. \<Union>l \<in> set (nodes_of c). set (ownCodes l))"
      using kids by simp
    finally show ?thesis using branch by simp
  qed
qed

lemma build_nth:
  "i < length es \<Longrightarrow>
   buildCategoryTree (JObj es) path ! i =
     (case snd (es ! i) of
        JArr vs \<Rightarrow> CategoryNode (join ''/'' (path @ [fst (es ! i)])) (humanizeKey (fst (es ! i)))
                     (dedupe (string_entries vs)) (dedupe (string_entries vs)) []
      | v \<Rightarrow> CategoryNode (join ''/'' (path @ [fst (es ! i)])) (humanizeKey (fst (es ! i)))
                (dedupe (concat (map codes (buildCategoryTree v (path @ [fst (es ! i)])))))
                [] (buildCategoryTree v (path @ [fst (es ! i)])))"
  by (cases "snd (es ! i)") (simp_all add: Let_def)

lemma build_nth_leaf:
  "i < length es \<Longrightarrow> snd (es ! i) = JArr vs \<Longrightarrow>
   buildCategoryTree (JObj es) path ! i =
     CategoryNode (join ''/'' (path @ [fst (es ! i)])) (humanizeKey (fst (es ! i)))
       (dedupe (string_entries vs)) (dedupe (string_entries vs)) []"
  by (simp add: build_nth del: buildCategoryTree.simps)

lemma build_nth_branch:
  "i < length es \<Longrightarrow> snd (es ! i) = JObj sub \<Longrightarrow>
   buildCategoryTree (JObj es) path ! i =
     CategoryNode (join ''/'' (path @ [fst (es ! i)])) (humanizeKey (fst (es ! i)))
       (dedupe (concat (map codes (buildCategoryTree (JObj sub) (path @ [fst (es ! i)])))))
       [] (buildCategoryTree (JObj sub) (path @ [fst (es ! i)]))"
  by (simp add: build_nth del: buildCategoryTree.simps)

lemma nodes_of_trans: "l \<in> set (nodes_of d) \<Longrightarrow> d \<in> set (nodes_of n) \<Longrightarrow> l \<in> set (nodes_of n)"
proof (induction n)
  case (CategoryNode i lab cs own ch)
  then show ?case by auto
qed

lemma tree_inv_proper:
  assumes inv: "tree_inv n" and d: "d \<in> set (concat (map nodes_of (children n)))"
  shows "d \<in> set (nodes_of n)" and "tree_inv d"
proof -
  show "d \<in> set (nodes_of n)" using d nodes_of_children[of n] by auto
  then show "tree_inv d" using inv tree_inv_sub by blast
qed

lemma tree_inv_codes_descendants:
  assumes inv: "tree_inv n" and own: "ownCodes n = []"
  shows "set (codes n) = (\<Union>d \<in> set (concat (map nodes_of (children n))). set (codes d))"
proof (intro equalityI subsetI)
  fix c assume "c \<in> set (codes n)"
  then obtain l where l: "l \<in> set (nodes_of n)" and cl: "c \<in> set (ownCodes l)"
    using tree_inv_codes[OF inv] by blast
  have "l \<noteq> n" using cl own by auto
  then have ld: "l \<in> set (concat (map nodes_of (children n)))"
    using l nodes_of_children[of n] by auto
  have "tree_inv l" using tree_inv_proper(2)[OF inv ld] .
  then have "c \<in> set (codes l)"
    using cl nodes_of_self[of l] tree_inv_codes[of l] by blast
  then show "c \<in> (\<Union>d \<in> set (concat (map nodes_of (children n))). set (codes d))"
    using ld by blast
next
  fix c assume "c \<in> (\<Union>d \<in> set (concat (map nodes_of (children n))). set (codes d))"
  then obtain d where d: "d \<in> set (concat (map nodes_of (children n)))" and c: "c \<in> set (codes d)"
    by blast
  obtain l where l: "l \<in> set (nodes_of d)" and cl: "c \<in> set (ownCodes l)"
    using c tree_inv_codes[OF tree_inv_proper(2)[OF inv d]] by blast
  have "l \<in> set (nodes_of n)"
    using nodes_of_trans[OF l tree_inv_proper(1)[OF inv d]] .
  then show "c \<in> set (codes n)" using cl tree_inv_codes[OF inv] by blast
qed

lemma build_nth_mem: "i < length es \<Longrightarrow> buildCategoryTree (JObj es) path ! i \<in> set (buildCategoryTree (JObj es) path)"
  by (rule nth_mem) simp

section \<open>Properties of sorting\<close>

lemma set_sort_insert: "set (sort_insert cmp x ys) = insert x (set ys)"
  by (induction ys) auto

lemma mset_sort_insert: "mset (sort_insert cmp x ys) = add_mset x (mset ys)"
  by (induction ys) auto

lemma mset_foldl_sort_insert:
  "mset (foldl (\<lambda>acc x. sort_insert cmp x acc) acc xs) = mset acc + mset xs"
  by (induction xs arbitrary: acc) (auto simp: mset_sort_insert)

lemma mset_js_sort: "mset (js_sort cmp xs) = mset xs"
  by (simp add: js_sort_def mset_foldl_sort_insert)

lemma set_js_sort: "set (js_sort cmp xs) = set xs"
  by (rule mset_eq_setD) (rule mset_js_sort)



lemma sorted_sort_insert:
  assumes asym: "\<And>a b. a \<in> A \<Longrightarrow> b \<in> A \<Longrightarrow> is_negative (cmp a b) \<Longrightarrow> \<not> is_negative (cmp b a)"
    and trans: "\<And>a b c. a \<in> A \<Longrightarrow> b \<in> A \<Longrightarrow> c \<in> A \<Longrightarrow>
                 is_negative (cmp a b) \<Longrightarrow> is_negative (cmp b c) \<Longrightarrow> is_negative (cmp a c)"
  shows "x \<in> A \<Longrightarrow> set ys \<subseteq> A \<Longrightarrow> sorted_wrt (\<lambda>a b. \<not> is_negative (cmp b a)) ys
         \<Longrightarrow> sorted_wrt (\<lambda>a b. \<not> is_negative (cmp b a)) (sort_insert cmp x ys)"
proof (induction ys)
  case Nil
  then show ?case by simp
next
  case (Cons y ys)
  show ?case
  proof (cases "is_negative (cmp x y)")
    case True
    have xy: "\<not> is_negative (cmp y x)"
      using asym[of x y] True Cons.prems by auto
    have "\<forall>z \<in> set ys. \<not> is_negative (cmp z x)"
    proof
      fix z assume z: "z \<in> set ys"
      then have "\<not> is_negative (cmp z y)" using Cons.prems(3) by simp
      then show "\<not> is_negative (cmp z x)"
        using trans[of z x y] True z Cons.prems(1,2) by auto
    qed
    then show ?thesis using True xy Cons.prems(3) by simp
  next
    case False
    have "sorted_wrt (\<lambda>a b. \<not> is_negative (cmp b a)) (sort_insert cmp x ys)"
      using Cons.IH Cons.prems by simp
    then show ?thesis using False Cons.prems(3) by (simp add: set_sort_insert)
  qed
qed

lemma sorted_foldl_sort_insert:
  assumes asym: "\<And>a b. a \<in> A \<Longrightarrow> b \<in> A \<Longrightarrow> is_negative (cmp a b) \<Longrightarrow> \<not> is_negative (cmp b a)"
    and trans: "\<And>a b c. a \<in> A \<Longrightarrow> b \<in> A \<Longrightarrow> c \<in> A \<Longrightarrow>
                 is_negative (cmp a b) \<Longrightarrow> is_negative (cmp b c) \<Longrightarrow> is_negative (cmp a c)"
  shows "set xs \<subseteq> A \<Longrightarrow> set acc \<subseteq> A \<Longrightarrow> sorted_wrt (\<lambda>a b. \<not> is_negative (cmp b a)) acc
         \<Longrightarrow> sorted_wrt (\<lambda>a b. \<not> is_negative (cmp b a))
               (foldl (\<lambda>acc x. sort_insert cmp x acc) acc xs)"
proof (induction xs arbitrary: acc)
  case Nil
  then show ?case by simp
next
  case (Cons x xs)
  have xA: "x \<in> A" and accA: "set acc \<subseteq> A"
    using Cons.prems by simp_all
  have s: "sorted_wrt (\<lambda>a b. \<not> is_negative (cmp b a)) (sort_insert cmp x acc)"
    by (rule sorted_sort_insert[where A = A, OF asym trans xA accA Cons.prems(3)])
  have "set (sort_insert cmp x acc) \<subseteq> A"
    using Cons.prems by (simp add: set_sort_insert)
  then show ?case using Cons.IH[of "sort_insert cmp x acc"] s Cons.prems(1) by simp
qed

lemma sorted_js_sort:
  assumes asym: "\<And>a b. a \<in> set xs \<Longrightarrow> b \<in> set xs \<Longrightarrow> is_negative (cmp a b) \<Longrightarrow> \<not> is_negative (cmp b a)"
    and trans: "\<And>a b c. a \<in> set xs \<Longrightarrow> b \<in> set xs \<Longrightarrow> c \<in> set xs \<Longrightarrow>
                 is_negative (cmp a b) \<Longrightarrow> is_negative (cmp b c) \<Longrightarrow> is_negative (cmp a c)"
  shows "sorted_wrt (\<lambda>a b. \<not> is_negative (cmp b a)) (js_sort cmp xs)"
  unfolding js_sort_def
  by (rule sorted_foldl_sort_insert[where A = "set xs", OF asym trans]) simp_all

section \<open>Properties of the breadcrumb index\<close>























lemma ordinal_compare_asym:
  "is_negative (ordinal_compare a b) \<Longrightarrow> \<not> is_negative (ordinal_compare b a)"
  by (induction a b rule: ordinal_compare.induct) (auto split: if_splits)










section \<open>Properties of filtering and counting\<close>

lemma set_allowed_codes:
  "set (foldl (\<lambda>allowed ident. foldl set_add allowed (f ident)) acc ids) =
     set acc \<union> (\<Union>i \<in> set ids. set (f i))"
  by (induction ids arbitrary: acc) (auto simp: set_foldl_set_add)

lemma foldl_count:
  "foldl (\<lambda>count c. if c \<in> S then count + 1 else count) (n::nat) cs =
     n + length (filter (\<lambda>c. c \<in> S) cs)"
  by (induction cs arbitrary: n) auto

lemma flatten_visit_entry:
  "flatten_visit n m ident = Some cs \<Longrightarrow>
   m ident = Some cs \<or> (\<exists>k \<in> set (nodes_of n). node_id k = ident \<and> codes k = cs)"
proof (induction n arbitrary: m)
  case (CategoryNode i l cs' own ch)
  have step: "\<And>m0. foldl (\<lambda>m' child. flatten_visit child m') m0 ch ident = Some cs \<Longrightarrow>
      m0 ident = Some cs \<or> (\<exists>c \<in> set ch. \<exists>k \<in> set (nodes_of c). node_id k = ident \<and> codes k = cs)"
    using CategoryNode.IH
  proof (induction ch)
    case Nil
    then show ?case by simp
  next
    case (Cons a ch)
    from Cons.IH[of "flatten_visit a m0"] Cons.prems
    have "flatten_visit a m0 ident = Some cs \<or>
          (\<exists>c \<in> set ch. \<exists>k \<in> set (nodes_of c). node_id k = ident \<and> codes k = cs)"
      by simp
    then show ?case
    proof
      assume "flatten_visit a m0 ident = Some cs"
      then have "m0 ident = Some cs \<or> (\<exists>k \<in> set (nodes_of a). node_id k = ident \<and> codes k = cs)"
        using Cons.prems(2)[of a m0] by simp
      then show ?thesis by auto
    next
      assume "\<exists>c \<in> set ch. \<exists>k \<in> set (nodes_of c). node_id k = ident \<and> codes k = cs"
      then show ?thesis by auto
    qed
  qed
  from CategoryNode.prems
  have "foldl (\<lambda>m' child. flatten_visit child m') (m(i \<mapsto> cs')) ch ident = Some cs"
    by simp
  from step[OF this] show ?case
    by (auto split: if_splits)
qed

lemma flatten_entry:
  assumes "flattenCategoryCodes nodes ident = Some cs"
  shows "\<exists>k \<in> set (all_nodes nodes). node_id k = ident \<and> codes k = cs"
proof -
  have "\<And>m0. foldl (\<lambda>m node. flatten_visit node m) m0 nodes ident = Some cs \<Longrightarrow>
      m0 ident = Some cs \<or> (\<exists>k \<in> set (all_nodes nodes). node_id k = ident \<and> codes k = cs)"
  proof (induction nodes)
    case Nil
    then show ?case by simp
  next
    case (Cons a nodes)
    from Cons.IH[of "flatten_visit a m0"] Cons.prems
    have "flatten_visit a m0 ident = Some cs \<or>
          (\<exists>k \<in> set (all_nodes nodes). node_id k = ident \<and> codes k = cs)"
      by simp
    then show ?case
      using flatten_visit_entry[of a m0 ident cs] by (auto simp: all_nodes_def)
  qed
  from this[of Map.empty] assms show ?thesis
    by (simp add: flattenCategoryCodes_def)
qed

lemma built_codes_distinct:
  assumes "flattenCategoryCodes (buildCategoryTree doc path) ident = Some cs"
  shows "distinct cs"
proof -
  obtain k where k: "k \<in> set (all_nodes (buildCategoryTree doc path))" and c: "codes k = cs"
    using flatten_entry[OF assms] by blast
  then obtain r where r: "r \<in> set (buildCategoryTree doc path)" and n: "k \<in> set (nodes_of r)"
    unfolding all_nodes_def by auto
  have "tree_inv k" using build_tree_inv[OF r] n by (rule tree_inv_sub)
  then show ?thesis using tree_inv_distinct c by blast
qed

lemma card_codes_materials:
  assumes "distinct (map code ms)"
  shows "card (set cs \<inter> code ` set ms) = length (filter (\<lambda>material. code material \<in> set cs) ms)"
proof -
  have "length (filter (\<lambda>material. code material \<in> set cs) ms) =
        length (filter (\<lambda>c. c \<in> set cs) (map code ms))"
    by (simp add: filter_map comp_def)
  also have "\<dots> = card ({c. c \<in> set cs} \<inter> set (map code ms))"
    using assms by (rule distinct_length_filter)
  finally show ?thesis by (simp add: Int_commute)
qed

section \<open>Properties of the repair effects\<close>

lemma material_effect_cases:
  "material_effect (Some printer) filtered c =
     (if c \<in> code ` set filtered then c else (case filtered of [] \<Rightarrow> [] | m # _ \<Rightarrow> code m))"
  by (auto simp: material_effect_def Let_def list_ex_iff)

lemma material_effect_None: "material_effect None filtered c = []"
  by (simp add: material_effect_def)

lemma material_effect_valid:
  "material_effect selPrinter filtered c \<in> code ` set filtered \<or>
   material_effect selPrinter filtered c = []"
  by (cases selPrinter) (auto simp: material_effect_cases material_effect_None split: list.splits)

lemma thickness_effect_cases:
  "thickness_effect numToString (Some material) t =
     (if t \<in> thickness_values numToString material then t
      else (case settings material of [] \<Rightarrow> [] | s # _ \<Rightarrow> numToString (layerThickness s)))"
  by (auto simp: thickness_effect_def thickness_values_def Let_def list_ex_iff)

lemma thickness_effect_None: "thickness_effect numToString None t = []"
  by (simp add: thickness_effect_def)

lemma thickness_effect_valid:
  "thickness_effect numToString (Some material) t \<in> thickness_values numToString material \<or>
   (settings material = [] \<and> thickness_effect numToString (Some material) t = [])"
  unfolding thickness_effect_cases
  by (auto simp: thickness_values_def split: list.splits)

lemma selectedMaterial_None_iff:
  "selectedMaterial filtered c = None \<longleftrightarrow> c \<notin> code ` set filtered"
  by (auto simp: selectedMaterial_def find_None_iff)

lemma selectedMaterial_Some:
  "selectedMaterial filtered c = Some m \<Longrightarrow> m \<in> set filtered \<and> code m = c"
  by (auto simp: selectedMaterial_def find_Some_iff)

lemma filteredMaterials_None: "filteredMaterials None ids cm = []"
  by (simp add: filteredMaterials_def)

lemma repair_fields:
  "selectedPrinterId (repair numToString printers cm st) = selectedPrinterId st"
  "selectedCategoryIds (repair numToString printers cm st) = selectedCategoryIds st"
  "selectedMaterialCode (repair numToString printers cm st) =
     material_effect (selectedPrinter printers (selectedPrinterId st))
       (filteredMaterials (selectedPrinter printers (selectedPrinterId st)) (selectedCategoryIds st) cm)
       (selectedMaterialCode st)"
  "selectedThickness (repair numToString printers cm st) =
     thickness_effect numToString
       (selectedMaterial
          (filteredMaterials (selectedPrinter printers (selectedPrinterId st)) (selectedCategoryIds st) cm)
          (selectedMaterialCode st))
       (selectedThickness st)"
  by (simp_all add: repair_def Let_def)

lemma material_effect_idem:
  "material_effect selPrinter filtered (material_effect selPrinter filtered c) =
   material_effect selPrinter filtered c"
  by (cases selPrinter) (auto simp: material_effect_cases material_effect_None split: list.splits)

lemma thickness_effect_idem:
  "thickness_effect numToString selMaterial (thickness_effect numToString selMaterial t) =
   thickness_effect numToString selMaterial t"
  by (cases selMaterial)
     (auto simp: thickness_effect_cases thickness_effect_None thickness_values_def split: list.splits)

lemma repair_code:
  "selectedMaterialCode (repair numToString printers cm st) =
     material_effect (selectedPrinter printers (selectedPrinterId st))
       (current_filtered printers cm st) (selectedMaterialCode st)"
  by (simp add: repair_fields current_filtered_def)

lemma repair_thickness:
  "selectedThickness (repair numToString printers cm st) =
     thickness_effect numToString (current_material printers cm st) (selectedThickness st)"
  by (simp add: repair_fields current_material_def current_filtered_def)

lemma repair_filtered:
  "current_filtered printers cm (repair numToString printers cm st) = current_filtered printers cm st"
  by (simp add: current_filtered_def repair_fields)

lemma filtered_no_printer:
  "selectedPrinter printers (selectedPrinterId st) = None \<Longrightarrow> current_filtered printers cm st = []"
  by (simp add: current_filtered_def filteredMaterials_None)

lemma repair_code_kept:
  assumes "selectedMaterialCode st \<in> code ` set (current_filtered printers cm st)"
  shows "selectedMaterialCode (repair numToString printers cm st) = selectedMaterialCode st"
proof (cases "selectedPrinter printers (selectedPrinterId st)")
  case None
  then show ?thesis using assms filtered_no_printer[of printers st cm] by simp
next
  case (Some p)
  then show ?thesis using assms by (simp add: repair_code material_effect_cases)
qed

lemma repair_code_reset:
  assumes "selectedMaterialCode st \<notin> code ` set (current_filtered printers cm st)"
  shows "selectedMaterialCode (repair numToString printers cm st) =
           (case current_filtered printers cm st of [] \<Rightarrow> [] | m # _ \<Rightarrow> code m)"
proof (cases "selectedPrinter printers (selectedPrinterId st)")
  case None
  then show ?thesis
    using filtered_no_printer[of printers st cm] by (simp add: repair_code material_effect_None)
next
  case (Some p)
  then show ?thesis using assms by (simp add: repair_code material_effect_cases)
qed

lemma repair_material_kept:
  assumes "selectedMaterialCode st \<in> code ` set (current_filtered printers cm st)"
  shows "current_material printers cm (repair numToString printers cm st) = current_material printers cm st"
  unfolding current_material_def repair_filtered repair_code_kept[OF assms] ..

lemma repair_material_lost:
  assumes "selectedMaterialCode st \<notin> code ` set (current_filtered printers cm st)"
  shows "current_material printers cm st = None"
  unfolding current_material_def using assms by (simp add: selectedMaterial_None_iff)

lemma repair_code_valid:
  "selectedMaterialCode (repair numToString printers cm st)
     \<in> code ` set (current_filtered printers cm (repair numToString printers cm st)) \<or>
   selectedMaterialCode (repair numToString printers cm st) = []"
  unfolding repair_filtered repair_code by (rule material_effect_valid)

lemma repair_thickness_valid:
  "selectedThickness (repair numToString printers cm st) = [] \<or>
   (\<exists>m. current_material printers cm (repair numToString printers cm st) = Some m \<and>
        selectedThickness (repair numToString printers cm st) \<in> thickness_values numToString m)"
proof (cases "selectedMaterialCode st \<in> code ` set (current_filtered printers cm st)")
  case True
  then obtain m where m: "current_material printers cm st = Some m"
    unfolding current_material_def using selectedMaterial_None_iff[of "current_filtered printers cm st" "selectedMaterialCode st"]
    by (cases "selectedMaterial (current_filtered printers cm st) (selectedMaterialCode st)") auto
  show ?thesis
    unfolding repair_material_kept[OF True] repair_thickness m
    using thickness_effect_valid[of numToString m "selectedThickness st"] by auto
next
  case False
  show ?thesis
    unfolding repair_thickness repair_material_lost[OF False] thickness_effect_None by simp
qed

lemma repair_twice_code:
  "selectedMaterialCode (repair numToString printers cm (repair numToString printers cm st)) =
   selectedMaterialCode (repair numToString printers cm st)"
proof -
  have "selectedPrinterId (repair numToString printers cm st) = selectedPrinterId st"
    by (simp add: repair_fields)
  then show ?thesis
    unfolding repair_code[of numToString printers cm "repair numToString printers cm st"] repair_filtered
    by (simp add: repair_code material_effect_idem)
qed

lemma repair_twice_material:
  "current_material printers cm (repair numToString printers cm (repair numToString printers cm st)) =
   current_material printers cm (repair numToString printers cm st)"
  unfolding current_material_def repair_filtered repair_twice_code ..

lemma repair_settles:
  "repair numToString printers cm (repair numToString printers cm (repair numToString printers cm st)) =
   repair numToString printers cm (repair numToString printers cm st)"
proof (rule PageState.equality)
  let ?s1 = "repair numToString printers cm st"
  let ?s2 = "repair numToString printers cm ?s1"
  show "selectedPrinterId (repair numToString printers cm ?s2) = selectedPrinterId ?s2"
    by (simp add: repair_fields)
  show "selectedCategoryIds (repair numToString printers cm ?s2) = selectedCategoryIds ?s2"
    by (simp add: repair_fields)
  show "selectedMaterialCode (repair numToString printers cm ?s2) = selectedMaterialCode ?s2"
    by (rule repair_twice_code)
  show "selectedThickness (repair numToString printers cm ?s2) = selectedThickness ?s2"
    unfolding repair_thickness[of numToString printers cm ?s2] repair_twice_material
    unfolding repair_thickness[of numToString printers cm ?s1]
    by (rule thickness_effect_idem)
  show "PageState.more (repair numToString printers cm ?s2) = PageState.more ?s2"
    by simp
qed

lemma repair_settled_thickness:
  assumes "current_material printers cm
             (repair numToString printers cm (repair numToString printers cm st)) = Some m"
  shows "selectedThickness (repair numToString printers cm (repair numToString printers cm st))
           \<in> thickness_values numToString m \<or>
         (settings m = [] \<and>
          selectedThickness (repair numToString printers cm (repair numToString printers cm st)) = [])"
proof -
  have m1: "current_material printers cm (repair numToString printers cm st) = Some m"
    using assms unfolding repair_twice_material .
  show ?thesis
    unfolding repair_thickness[of numToString printers cm "repair numToString printers cm st"] m1
    by (rule thickness_effect_valid)
qed

section \<open>Properties of the layer options\<close>

lemma is_negative_js_sub: "is_negative (js_sub a b) = js_less a b"
  by (cases a; cases b) auto

lemma js_less_asym: "js_less a b \<Longrightarrow> \<not> js_less b a"
  by (cases a; cases b) auto

lemma js_less_trans: "js_less a b \<Longrightarrow> js_less b c \<Longrightarrow> js_less a c"
  by (cases a; cases b; cases c) auto

lemma js_less_total: "a \<noteq> NaN \<Longrightarrow> b \<noteq> NaN \<Longrightarrow> a \<noteq> b \<Longrightarrow> js_less a b \<or> js_less b a"
  by (cases a; cases b) auto

lemma layer_option_thickness: "layerThickness (layer_option nts s) = setting_thickness s"
  by (simp add: layer_option_def setting_thickness_def Let_def)

lemma add_setting_keys:
  "map fst (add_setting nts tm s) = set_add (map fst tm) (setting_thickness s)"
  by (simp add: add_setting_def Let_def map_has_def map_set_def set_add_def setting_thickness_def)

lemma foldl_add_setting_keys:
  "map fst (foldl (add_setting nts) tm ss) = foldl set_add (map fst tm) (map setting_thickness ss)"
  by (induction ss arbitrary: tm) (simp_all add: add_setting_keys)

lemma thickness_map_keys:
  "map fst (foldl (add_setting nts) [] ss) = dedupe (map setting_thickness ss)"
  by (simp add: foldl_add_setting_keys dedupe_def new_Set_def)

lemma add_setting_entries:
  "set (add_setting nts tm s) =
     (if setting_thickness s \<in> fst ` set tm then set tm
      else insert (setting_thickness s, layer_option nts s) (set tm))"
  by (auto simp: add_setting_def Let_def map_has_def map_set_def setting_thickness_def)

lemma foldl_add_setting_entries:
  assumes "(k, opt) \<in> set (foldl (add_setting nts) tm ss)"
  shows "(k, opt) \<in> set tm \<or>
         (k \<notin> fst ` set tm \<and>
          (\<exists>s. List.find (\<lambda>s. setting_thickness s = k) ss = Some s \<and> opt = layer_option nts s))"
  using assms
proof (induction ss arbitrary: tm)
  case Nil
  then show ?case by simp
next
  case (Cons s ss)
  from Cons.IH[of "add_setting nts tm s"] Cons.prems
  consider (old) "(k, opt) \<in> set (add_setting nts tm s)"
    | (new) "k \<notin> fst ` set (add_setting nts tm s)"
            "\<exists>s'. List.find (\<lambda>s. setting_thickness s = k) ss = Some s' \<and> opt = layer_option nts s'"
    by auto
  then show ?case
  proof cases
    case old
    then show ?thesis
      by (auto simp: add_setting_entries split: if_splits)
  next
    case new
    have k: "k \<noteq> setting_thickness s" and kt: "k \<notin> fst ` set tm"
      using new(1) by (auto simp: add_setting_entries split: if_splits)
    then show ?thesis using new(2) by auto
  qed
qed

lemma thickness_map_entries:
  assumes "(k, opt) \<in> set (foldl (add_setting nts) [] ss)"
  shows "\<exists>s. List.find (\<lambda>s. setting_thickness s = k) ss = Some s \<and> opt = layer_option nts s"
  using foldl_add_setting_entries[OF assms] by simp

lemma thickness_map_fst:
  assumes "(k, opt) \<in> set (foldl (add_setting nts) [] ss)"
  shows "layerThickness opt = k"
proof -
  obtain s where f: "List.find (\<lambda>s. setting_thickness s = k) ss = Some s" and o: "opt = layer_option nts s"
    using thickness_map_entries[OF assms] by blast
  have "setting_thickness s = k" using f by (auto simp: find_Some_iff)
  then show ?thesis using o by (simp add: layer_option_thickness)
qed

lemma thickness_map_values:
  "map layerThickness (map_values (foldl (add_setting nts) [] ss)) =
   map fst (foldl (add_setting nts) [] ss)"
  unfolding map_values_def map_map
  by (rule map_cong[OF refl]) (use thickness_map_fst in force)

lemma thickness_map_values_dedupe:
  "map layerThickness (map_values (foldl (add_setting nts) [] ss)) = dedupe (map setting_thickness ss)"
  by (simp add: thickness_map_values thickness_map_keys)

lemma settings_buildMaterial:
  "settings (buildMaterial nts idx m) =
     js_sort (\<lambda>a b. js_sub (layerThickness a) (layerThickness b))
       (map_values (foldl (add_setting nts) [] (material_settings m)))"
  by (simp add: buildMaterial_def Let_def)

lemma mset_settings_thickness:
  "mset (map layerThickness (settings (buildMaterial nts idx m))) =
   mset (dedupe (map setting_thickness (material_settings m)))"
  unfolding settings_buildMaterial
  by (simp add: mset_js_sort flip: thickness_map_values_dedupe[of nts])

lemma distinct_settings_thickness:
  "distinct (map layerThickness (settings (buildMaterial nts idx m)))"
  using mset_settings_thickness[of nts idx m] distinct_dedupe[of "map setting_thickness (material_settings m)"]
  by (metis mset_eq_imp_distinct_iff)

lemma set_settings_thickness:
  "layerThickness ` set (settings (buildMaterial nts idx m)) =
   setting_thickness ` set (material_settings m)"
proof -
  have "set (map layerThickness (settings (buildMaterial nts idx m))) =
        set (dedupe (map setting_thickness (material_settings m)))"
    using mset_settings_thickness[of nts idx m] by (rule mset_eq_setD)
  then show ?thesis by (simp add: set_dedupe)
qed

lemma settings_first_setting:
  assumes "opt \<in> set (settings (buildMaterial nts idx m))"
  shows "\<exists>s. List.find (\<lambda>s. setting_thickness s = layerThickness opt) (material_settings m) = Some s \<and>
             opt = layer_option nts s"
proof -
  have "opt \<in> snd ` set (foldl (add_setting nts) [] (material_settings m))"
    using assms unfolding settings_buildMaterial set_js_sort map_values_def by simp
  then obtain k where k: "(k, opt) \<in> set (foldl (add_setting nts) [] (material_settings m))"
    by auto
  have "layerThickness opt = k" using k by (rule thickness_map_fst)
  then show ?thesis using thickness_map_entries[OF k] by simp
qed

lemma strictly_ascending:
  "distinct (map f xs) \<Longrightarrow> \<forall>x \<in> set xs. f x \<noteq> NaN \<Longrightarrow>
   sorted_wrt (\<lambda>a b. \<not> js_less (f b) (f a)) xs \<Longrightarrow>
   sorted_wrt (\<lambda>a b. js_less (f a) (f b)) xs"
proof (induction xs)
  case Nil
  then show ?case by simp
next
  case (Cons x xs)
  have "\<forall>y \<in> set xs. js_less (f x) (f y)"
  proof
    fix y assume y: "y \<in> set xs"
    have "f x \<noteq> f y" using Cons.prems(1) y by auto
    moreover have "\<not> js_less (f y) (f x)" using Cons.prems(3) y by simp
    ultimately show "js_less (f x) (f y)"
      using js_less_total[of "f x" "f y"] Cons.prems(2) y by auto
  qed
  then show ?case using Cons by simp
qed

lemma settings_sorted_weak:
  assumes "NaN \<notin> setting_thickness ` set (material_settings m)"
  shows "sorted_wrt (\<lambda>a b. \<not> js_less (layerThickness b) (layerThickness a))
     (settings (buildMaterial nts idx m))"
proof -
  have "sorted_wrt (\<lambda>a b. \<not> is_negative (js_sub (layerThickness b) (layerThickness a)))
     (js_sort (\<lambda>a b. js_sub (layerThickness a) (layerThickness b))
       (map_values (foldl (add_setting nts) [] (material_settings m))))"
    by (rule sorted_js_sort) (auto simp: is_negative_js_sub dest: js_less_asym js_less_trans)
  then show ?thesis
    unfolding settings_buildMaterial is_negative_js_sub .
qed

lemma foldl_set_add_absorb: "set xs \<subseteq> set acc \<Longrightarrow> foldl set_add acc xs = acc"
  by (induction xs arbitrary: acc) (auto simp: set_add_def)

lemma dedupe_all_equal: "\<forall>x \<in> set xs. x = k \<Longrightarrow> dedupe (k # xs) = [k]"
  using foldl_set_add_absorb[of xs "[k]"]
  by (auto simp: dedupe_def new_Set_def set_add_def)

lemma js_sort_single: "js_sort cmp [x] = [x]"
  by (simp add: js_sort_def)

lemma buildMaterial_code:
  "material_settings m = first # rest \<Longrightarrow>
   code (buildMaterial nts idx m) = material_code (scene_settings first)"
  by (simp add: buildMaterial_def Let_def)

lemma buildMaterial_paths:
  "categoryPaths (buildMaterial nts idx m) =
     (case idx (code (buildMaterial nts idx m)) of None \<Rightarrow> [] | Some ps \<Rightarrow> ps)"
  by (simp add: buildMaterial_def Let_def)

lemma layer_option_fields:
  "layer_id (layer_option nts s) =
     material_code (scene_settings s) @ ''-'' @ nts (setting_thickness s)"
  "layer_label (layer_option nts s) = setting_label s"
  "machine_type (scene (layer_option nts s)) = machine_type (scene_settings s)"
  "material_code (scene (layer_option nts s)) = material_code (scene_settings s)"
  "layer_thickness_mm (scene (layer_option nts s)) = layer_thickness_mm (scene_settings s)"
  by (simp_all add: layer_option_def setting_thickness_def Let_def)

section \<open>Properties of the export\<close>

lemma hex_value_hex_digit: "k < 16 \<Longrightarrow> hex_value (hex_digit k) = Some k"
  by (auto simp: hex_value_def hex_digit_def Let_def)

lemma char_by_code: "(of_char c :: nat) = of_char d \<Longrightarrow> c = d"
  by simp

lemma prepend_Some: "prepend c (Some (s, r)) = Some (c # s, r)"
  by (simp add: prepend_def)

lemma parse_quote_char:
  "parse_string_body (quote_char c @ rest) = prepend c (parse_string_body rest)"
proof -
  let ?n = "of_char c :: nat"
  have c: "char_of ?n = c" by simp
  consider (dq) "?n = 0x22" | (bs) "?n = 0x5C" | (b) "?n = 0x08" | (t) "?n = 0x09" | (n) "?n = 0x0A"
    | (f) "?n = 0x0C" | (r) "?n = 0x0D"
    | (ctl) "?n < 0x20" "?n \<noteq> 0x08" "?n \<noteq> 0x09" "?n \<noteq> 0x0A" "?n \<noteq> 0x0C" "?n \<noteq> 0x0D"
    | (plain) "?n \<ge> 0x20" "?n \<noteq> 0x22" "?n \<noteq> 0x5C"
    by linarith
  then show ?thesis
  proof cases
    case dq
    then have "c = CHR 0x22" by (intro char_by_code) simp
    then show ?thesis
      by (simp add: quote_char_def Let_def dquote_def backslash_def unescape_def)
  next
    case bs
    then have "c = CHR 0x5C" by (intro char_by_code) simp
    then show ?thesis
      by (simp add: quote_char_def Let_def dquote_def backslash_def unescape_def)
  next
    case b
    then have "c = CHR 0x08" by (intro char_by_code) simp
    then show ?thesis
      by (simp add: quote_char_def Let_def dquote_def backslash_def unescape_def)
  next
    case t
    then have "c = CHR 0x09" by (intro char_by_code) simp
    then show ?thesis
      by (simp add: quote_char_def Let_def dquote_def backslash_def unescape_def)
  next
    case n
    then have "c = CHR 0x0A" by (intro char_by_code) simp
    then show ?thesis
      by (simp add: quote_char_def Let_def dquote_def backslash_def unescape_def)
  next
    case f
    then have "c = CHR 0x0C" by (intro char_by_code) simp
    then show ?thesis
      by (simp add: quote_char_def Let_def dquote_def backslash_def unescape_def)
  next
    case r
    then have "c = CHR 0x0D" by (intro char_by_code) simp
    then show ?thesis
      by (simp add: quote_char_def Let_def dquote_def backslash_def unescape_def)
  next
    case ctl
    have q: "quote_char c =
        [backslash, CHR ''u'', CHR ''0'', CHR ''0'', hex_digit (?n div 16), hex_digit (?n mod 16)]"
      using ctl by (simp add: quote_char_def Let_def)
    have h1: "hex_value (hex_digit (?n div 16)) = Some (?n div 16)"
      using ctl(1) by (intro hex_value_hex_digit) simp
    have h2: "hex_value (hex_digit (?n mod 16)) = Some (?n mod 16)"
      by (intro hex_value_hex_digit) simp
    have h0: "hex_value CHR ''0'' = Some 0"
      by (simp add: hex_value_def)
    have v: "((0 * 16 + 0) * 16 + ?n div 16) * 16 + ?n mod 16 = ?n"
      by simp
    have lt: "?n < 128" using ctl(1) by simp
    have nb: "backslash \<noteq> dquote" by (simp add: backslash_def dquote_def)
    show ?thesis
      unfolding q using h0 h1 h2 lt nb c by (simp add: Let_def)
  next
    case plain
    have ndq: "c \<noteq> dquote" using plain(2) by (auto simp: dquote_def)
    have nbs: "c \<noteq> backslash" using plain(3) by (auto simp: backslash_def)
    have q: "quote_char c = [c]"
      using plain by (simp add: quote_char_def Let_def)
    show ?thesis
      unfolding q using ndq nbs plain(1) by simp
  qed
qed

lemma parse_quoted_body:
  "parse_string_body (concat (map quote_char s) @ dquote # rest) = Some (s, rest)"
proof (induction s)
  case Nil
  then show ?case by simp
next
  case (Cons c s)
  have "parse_string_body (concat (map quote_char (c # s)) @ dquote # rest) =
        parse_string_body (quote_char c @ (concat (map quote_char s) @ dquote # rest))"
    by simp
  also have "\<dots> = prepend c (parse_string_body (concat (map quote_char s) @ dquote # rest))"
    by (rule parse_quote_char)
  finally show ?case using Cons.IH by (simp add: prepend_Some)
qed

lemma skip_ws_append: "\<forall>c \<in> set w. is_ws c \<Longrightarrow> skip_ws (w @ s) = skip_ws s"
  unfolding skip_ws_def by (induction w) auto

lemma skip_ws_Cons: "\<not> is_ws c \<Longrightarrow> skip_ws (c # s) = c # s"
  by (simp add: skip_ws_def)

lemma skip_ws_Nil: "skip_ws [] = []"
  by (simp add: skip_ws_def)

lemma not_ws:
  "\<not> is_ws dquote" "\<not> is_ws CHR '':''" "\<not> is_ws CHR '',''" "\<not> is_ws CHR ''}''" "\<not> is_ws CHR ''{''"
  "\<not> is_ws CHR ''n''"
  by (simp_all add: is_ws_def dquote_def)

lemma is_ws_chars: "is_ws newline" "is_ws CHR '' ''"
  by (simp_all add: is_ws_def newline_def)

lemma number_char_not_ws: "is_number_char c \<Longrightarrow> \<not> is_ws c"
  by (auto simp: is_number_char_def is_ws_def Let_def)

lemma not_number_char:
  "\<not> is_number_char newline" "\<not> is_number_char CHR '',''" "\<not> is_number_char dquote"
  "\<not> is_number_char CHR ''n''" "\<not> is_number_char CHR ''t''" "\<not> is_number_char CHR ''f''"
  by (simp_all add: is_number_char_def newline_def dquote_def Let_def)

lemma parse_scalar_string:
  "parse_scalar pn (QuoteJSONString s @ rest) = Some (JStr s, rest)"
  by (simp add: parse_scalar_def QuoteJSONString_def parse_quoted_body)

lemma parse_scalar_null:
  "parse_scalar pn (''null'' @ rest) = Some (JNull, rest)"
  by (simp add: parse_scalar_def dquote_def)

lemma parse_scalar_number:
  assumes tok: "tok \<noteq> []" "\<forall>c \<in> set tok. is_number_char c"
    and rest: "rest = [] \<or> \<not> is_number_char (hd rest)"
    and pn: "pn tok = Some n"
  shows "parse_scalar pn (tok @ rest) = Some (JNum n, rest)"
proof -
  obtain c cs where t: "tok = c # cs" using tok(1) by (cases tok) auto
  have c: "is_number_char c" using tok(2) t by simp
  have c1: "c \<noteq> dquote" "c \<noteq> CHR ''n''" "c \<noteq> CHR ''t''" "c \<noteq> CHR ''f''"
    using c not_number_char by auto
  have tw: "takeWhile is_number_char (tok @ rest) = tok"
    using tok(2) rest by (cases rest) (auto simp: takeWhile_append)
  have dw: "dropWhile is_number_char (tok @ rest) = rest"
    using tok(2) rest by (cases rest) (auto simp: dropWhile_append)
  have n4: "take 4 (tok @ rest) \<noteq> ''null''" "take 4 (tok @ rest) \<noteq> ''true''"
    "take 5 (tok @ rest) \<noteq> ''false''"
    using t c1 by auto
  show ?thesis
    unfolding parse_scalar_def using tw dw n4 c1(1) pn tok(1)
    by (simp add: t Let_def del: take_Cons_numeral)
qed

lemma parse_key:
  "parse_string_body (tl (QuoteJSONString k) @ rest) = Some (k, rest)"
  by (simp add: QuoteJSONString_def parse_quoted_body)

lemma member_step:
  assumes ws: "\<forall>c \<in> set w. is_ws c"
    and v: "parse_scalar pn (vtext @ rest) = Some (v, rest)"
    and v0: "vtext \<noteq> []" "\<not> is_ws (hd vtext)"
  shows "parse_members (Suc fuel) pn (w @ QuoteJSONString k @ '': '' @ vtext @ rest) =
           (case skip_ws rest of
              [] \<Rightarrow> None
            | c3 # r4 \<Rightarrow>
                if c3 = CHR '','' then
                  map_option (\<lambda>p. ((k, v) # fst p, snd p)) (parse_members fuel pn r4)
                else if c3 = CHR ''}'' then Some ([(k, v)], r4)
                else None)"
proof -
  have s1: "skip_ws (w @ QuoteJSONString k @ '': '' @ vtext @ rest) =
            dquote # (concat (map quote_char k) @ dquote # ('': '' @ vtext @ rest))"
    using ws by (simp add: skip_ws_append QuoteJSONString_def skip_ws_Cons not_ws)
  have s2: "parse_string_body (concat (map quote_char k) @ dquote # ('': '' @ vtext @ rest)) =
            Some (k, '': '' @ vtext @ rest)"
    by (rule parse_quoted_body)
  have s3: "skip_ws ('': '' @ vtext @ rest) = CHR '':'' # ('' '' @ vtext @ rest)"
    by (simp add: skip_ws_Cons not_ws)
  obtain c cs where vt: "vtext = c # cs" using v0(1) by (cases vtext) auto
  have s4: "skip_ws ('' '' @ vtext @ rest) = vtext @ rest"
    using v0(2) vt skip_ws_append[of "'' ''" "vtext @ rest"]
    by (simp add: is_ws_chars skip_ws_Cons)
  show ?thesis
    unfolding parse_members.simps s1 using s2 s3 s4 v
    by (simp del: parse_string_body.simps)
qed

lemma scene_payload_text:
  "scene_payload nts sc =
     ''{'' @ [newline] @
     ''  '' @ QuoteJSONString ''machine_type'' @ '': '' @ QuoteJSONString (machine_type sc) @ '','' @ [newline] @
     ''  '' @ QuoteJSONString ''material_code'' @ '': '' @ QuoteJSONString (material_code sc) @ '','' @ [newline] @
     ''  '' @ QuoteJSONString ''layer_thickness_mm'' @ '': '' @ number_text nts (layer_thickness_mm sc) @
     [newline] @ ''}''"
  by (simp add: scene_payload_def JSON_stringify_def scene_object_def number_text_def
      numeral_2_eq_2)

lemma parse_three_members:
  assumes v3: "parse_scalar pn (t3 @ [newline] @ ''}'') = Some (v3, [newline] @ ''}'')"
    and t3: "t3 \<noteq> []" "\<not> is_ws (hd t3)"
  shows "JSON_parse pn
     (''{'' @ [newline] @
      ''  '' @ QuoteJSONString k1 @ '': '' @ QuoteJSONString s1 @ '','' @ [newline] @
      ''  '' @ QuoteJSONString k2 @ '': '' @ QuoteJSONString s2 @ '','' @ [newline] @
      ''  '' @ QuoteJSONString k3 @ '': '' @ t3 @ [newline] @ ''}'') =
     (if distinct [k1, k2, k3] then Some (JObj [(k1, JStr s1), (k2, JStr s2), (k3, v3)]) else None)"
proof -
  let ?m3 = "([newline] @ ''  '') @ QuoteJSONString k3 @ '': '' @ t3 @ ([newline] @ ''}'')"
  let ?r2 = "'','' @ ?m3"
  let ?m2 = "([newline] @ ''  '') @ QuoteJSONString k2 @ '': '' @ QuoteJSONString s2 @ ?r2"
  let ?r1 = "'','' @ ?m2"
  let ?m1 = "([newline] @ ''  '') @ QuoteJSONString k1 @ '': '' @ QuoteJSONString s1 @ ?r1"
  let ?s = "''{'' @ ?m1"
  have ws: "\<forall>c \<in> set ([newline] @ ''  ''). is_ws c"
    by (simp add: is_ws_chars)
  have q: "\<And>s. QuoteJSONString s \<noteq> []" "\<And>s. \<not> is_ws (hd (QuoteJSONString s))"
    by (simp_all add: QuoteJSONString_def not_ws)
  have e3: "skip_ws ([newline] @ ''}'') = ''}''"
    using skip_ws_append[of "[newline]" "''}''"] by (simp add: is_ws_chars skip_ws_Cons not_ws)
  have p3: "\<And>fuel. parse_members (Suc fuel) pn ?m3 = Some ([(k3, v3)], [])"
    using member_step[OF ws v3 t3, of _ k3] e3 by simp
  have e2: "skip_ws ?r2 = CHR '','' # ?m3"
    by (simp add: skip_ws_Cons not_ws)
  have p2: "\<And>fuel. parse_members (Suc (Suc fuel)) pn ?m2 = Some ([(k2, JStr s2), (k3, v3)], [])"
    using member_step[OF ws parse_scalar_string[of pn s2 ?r2] q, of "Suc _" k2] e2 p3
    by (simp del: parse_members.simps)
  have e1: "skip_ws ?r1 = CHR '','' # ?m2"
    by (simp add: skip_ws_Cons not_ws)
  have p1: "\<And>fuel. parse_members (Suc (Suc (Suc fuel))) pn ?m1 =
             Some ([(k1, JStr s1), (k2, JStr s2), (k3, v3)], [])"
    using member_step[OF ws parse_scalar_string[of pn s1 ?r1] q, of "Suc (Suc _)" k1] e1 p2
    by (simp del: parse_members.simps)
  define n where "n = length ?s"
  have len: "3 \<le> n"
    unfolding n_def by (simp add: QuoteJSONString_def)
  have "\<exists>fuel. n = Suc (Suc (Suc fuel))"
    using len by presburger
  then obtain fuel where fuel: "n = Suc (Suc (Suc fuel))" by blast
  have pm: "parse_members (length ?s) pn ?m1 = Some ([(k1, JStr s1), (k2, JStr s2), (k3, v3)], [])"
    unfolding n_def[symmetric] fuel by (rule p1)
  have s0: "skip_ws ?s = CHR ''{'' # ?m1"
    by (simp add: skip_ws_Cons not_ws)
  have s1: "skip_ws ?m1 = dquote # tl (QuoteJSONString k1) @ '': '' @ QuoteJSONString s1 @ ?r1"
    using skip_ws_append[OF ws, of "QuoteJSONString k1 @ '': '' @ QuoteJSONString s1 @ ?r1"]
    by (simp add: QuoteJSONString_def skip_ws_Cons not_ws)
  have dq: "dquote \<noteq> CHR ''}''" by (simp add: dquote_def)
  have "JSON_parse pn ?s =
     (if distinct [k1, k2, k3] then Some (JObj [(k1, JStr s1), (k2, JStr s2), (k3, v3)]) else None)"
    unfolding JSON_parse_def s0 list.case pm s1
    using dq by (simp add: skip_ws_Nil)
  then show ?thesis by simp
qed

lemma parse_scalar_finite:
  assumes "nts (Fin r) \<noteq> []" and "\<forall>c \<in> set (nts (Fin r)). is_number_char c"
    and "pn (nts (Fin r)) = Some (Fin r)"
  shows "parse_scalar pn (number_text nts (Fin r) @ [newline] @ ''}'') =
           Some (JNum (Fin r), [newline] @ ''}'')"
  unfolding number_text_def jsnum.case
  by (rule parse_scalar_number) (use assms not_number_char in auto)

lemma parse_scalar_not_finite:
  assumes "\<forall>r. n \<noteq> Fin r"
  shows "parse_scalar pn (number_text nts n @ [newline] @ ''}'') = Some (JNull, [newline] @ ''}'')"
proof -
  have "number_text nts n = ''null''"
    using assms by (cases n) (simp_all add: number_text_def)
  then show ?thesis using parse_scalar_null[of pn "[newline] @ ''}''"] by simp
qed

lemma payload_keys_distinct: "distinct [''machine_type'', ''material_code'', ''layer_thickness_mm'']"
  by simp





















section \<open>The claims\<close>

text \<open>
  Claim C1. For a taxonomy object with entries \<open>es\<close>, the builder returns one node per
  entry. An entry whose value is an array gives a leaf: own and aggregated codes are both the
  deduplicated string entries of the array, and there are no children. An entry whose value
  is an object gives a branch: no own codes, the children are the tree built from the nested
  object, and the aggregated codes are the deduplicated union of the codes of all
  descendants. For every node of the tree, a code is among its aggregated codes exactly when
  it is an own code of the node itself or of one of its descendants.
\<close>

theorem buildCategoryTree_codes:
  "length (buildCategoryTree (JObj es) path) = length es \<and>
   (\<forall>i < length es. \<forall>vs. snd (es ! i) = JArr vs \<longrightarrow>
      (let n = buildCategoryTree (JObj es) path ! i
       in ownCodes n = dedupe (string_entries vs) \<and> codes n = dedupe (string_entries vs) \<and>
          children n = [] \<and> distinct (codes n) \<and> set (codes n) = {s. JStr s \<in> set vs})) \<and>
   (\<forall>i < length es. \<forall>sub. snd (es ! i) = JObj sub \<longrightarrow>
      (let n = buildCategoryTree (JObj es) path ! i
       in ownCodes n = [] \<and>
          children n = buildCategoryTree (JObj sub) (path @ [fst (es ! i)]) \<and>
          codes n = dedupe (concat (map codes (children n))) \<and> distinct (codes n) \<and>
          set (codes n) = (\<Union>d \<in> set (concat (map nodes_of (children n))). set (codes d)))) \<and>
   (\<forall>n \<in> set (all_nodes (buildCategoryTree (JObj es) path)). \<forall>c.
      c \<in> set (codes n) \<longleftrightarrow> (\<exists>l \<in> set (nodes_of n). c \<in> set (ownCodes l)))"
proof (intro conjI allI impI ballI)
  show "length (buildCategoryTree (JObj es) path) = length es" by simp
next
  fix i vs assume i: "i < length es" and v: "snd (es ! i) = JArr vs"
  show "let n = buildCategoryTree (JObj es) path ! i
       in ownCodes n = dedupe (string_entries vs) \<and> codes n = dedupe (string_entries vs) \<and>
          children n = [] \<and> distinct (codes n) \<and> set (codes n) = {s. JStr s \<in> set vs}"
    unfolding build_nth_leaf[OF i v] Let_def
    by (simp add: distinct_dedupe set_dedupe set_string_entries)
next
  fix i sub assume i: "i < length es" and v: "snd (es ! i) = JObj sub"
  define n where "n = buildCategoryTree (JObj es) path ! i"
  have n_eq: "n = CategoryNode (join ''/'' (path @ [fst (es ! i)])) (humanizeKey (fst (es ! i)))
       (dedupe (concat (map codes (buildCategoryTree (JObj sub) (path @ [fst (es ! i)])))))
       [] (buildCategoryTree (JObj sub) (path @ [fst (es ! i)]))"
    unfolding n_def by (rule build_nth_branch[OF i v])
  have inv: "tree_inv n"
    unfolding n_def using build_nth_mem[OF i] by (rule build_tree_inv)
  have own: "ownCodes n = []" by (subst n_eq) simp
  have kids: "children n = buildCategoryTree (JObj sub) (path @ [fst (es ! i)])"
    by (subst n_eq) (simp del: buildCategoryTree.simps)
  have cs: "codes n = dedupe (concat (map codes (children n)))"
    unfolding kids by (subst n_eq) (simp del: buildCategoryTree.simps)
  have "ownCodes n = [] \<and>
          children n = buildCategoryTree (JObj sub) (path @ [fst (es ! i)]) \<and>
          codes n = dedupe (concat (map codes (children n))) \<and> distinct (codes n) \<and>
          set (codes n) = (\<Union>d \<in> set (concat (map nodes_of (children n))). set (codes d))"
    using own kids cs tree_inv_distinct[OF inv] tree_inv_codes_descendants[OF inv own] by blast
  then show "let n = buildCategoryTree (JObj es) path ! i
       in ownCodes n = [] \<and>
          children n = buildCategoryTree (JObj sub) (path @ [fst (es ! i)]) \<and>
          codes n = dedupe (concat (map codes (children n))) \<and> distinct (codes n) \<and>
          set (codes n) = (\<Union>d \<in> set (concat (map nodes_of (children n))). set (codes d))"
    unfolding n_def Let_def .
next
  fix n c assume "n \<in> set (all_nodes (buildCategoryTree (JObj es) path))"
  then obtain r where r: "r \<in> set (buildCategoryTree (JObj es) path)" and n: "n \<in> set (nodes_of r)"
    unfolding all_nodes_def by auto
  have inv: "tree_inv n"
    using build_tree_inv[OF r] n by (rule tree_inv_sub)
  show "c \<in> set (codes n) \<longleftrightarrow> (\<exists>l \<in> set (nodes_of n). c \<in> set (ownCodes l))"
    using tree_inv_codes[OF inv] by auto
qed
theorem buildCategoryTree_codes_witness:
  "1 < length example_entries \<and>
   snd (example_entries ! 1) = JArr [JStr ''RS-F2-CW''] \<and>
   ownCodes (buildCategoryTree (JObj example_entries) [] ! 1) = [''RS-F2-CW''] \<and>
   codes (buildCategoryTree (JObj example_entries) [] ! 1) = [''RS-F2-CW''] \<and>
   0 < length example_entries \<and>
   snd (example_entries ! 0) =
     JObj [(''models'', JArr [JStr ''RS-F2-DM'', JNull, JStr ''RS-F2-IND'', JStr ''RS-F2-DM''])] \<and>
   ownCodes (buildCategoryTree (JObj example_entries) [] ! 0) = [] \<and>
   distinct (codes (buildCategoryTree (JObj example_entries) [] ! 0)) \<and>
   hd (buildCategoryTree (JObj example_entries) [])
     \<in> set (all_nodes (buildCategoryTree (JObj example_entries) [])) \<and>
   (''RS-F2-IND'' \<in> set (codes (hd (buildCategoryTree (JObj example_entries) []))) \<longleftrightarrow>
    (\<exists>l \<in> set (nodes_of (hd (buildCategoryTree (JObj example_entries) []))).
       ''RS-F2-IND'' \<in> set (ownCodes l)))"
proof -
  note T = buildCategoryTree_codes[of example_entries "[]"]
  have i1: "1 < length example_entries" by code_simp
  have v1: "snd (example_entries ! 1) = JArr [JStr ''RS-F2-CW'']" by code_simp
  have d1: "dedupe (string_entries [JStr ''RS-F2-CW'']) = [''RS-F2-CW'']" by code_simp
  have leaf: "ownCodes (buildCategoryTree (JObj example_entries) [] ! 1) = [''RS-F2-CW''] \<and>
              codes (buildCategoryTree (JObj example_entries) [] ! 1) = [''RS-F2-CW'']"
    using T[THEN conjunct2, THEN conjunct1, rule_format, OF i1 v1] d1
    unfolding Let_def by simp
  have i0: "0 < length example_entries" by code_simp
  have v0: "snd (example_entries ! 0) =
     JObj [(''models'', JArr [JStr ''RS-F2-DM'', JNull, JStr ''RS-F2-IND'', JStr ''RS-F2-DM''])]"
    by code_simp
  have branch: "ownCodes (buildCategoryTree (JObj example_entries) [] ! 0) = [] \<and>
                distinct (codes (buildCategoryTree (JObj example_entries) [] ! 0))"
    using T[THEN conjunct2, THEN conjunct2, THEN conjunct1, rule_format, OF i0 v0]
    unfolding Let_def by blast
  have m: "hd (buildCategoryTree (JObj example_entries) [])
     \<in> set (all_nodes (buildCategoryTree (JObj example_entries) []))"
    by code_simp
  have anc: "''RS-F2-IND'' \<in> set (codes (hd (buildCategoryTree (JObj example_entries) []))) \<longleftrightarrow>
    (\<exists>l \<in> set (nodes_of (hd (buildCategoryTree (JObj example_entries) []))).
       ''RS-F2-IND'' \<in> set (ownCodes l))"
    using T[THEN conjunct2, THEN conjunct2, THEN conjunct2, rule_format, OF m] .
  show ?thesis
    using i1 v1 leaf i0 v0 branch m anc by blast
qed

text \<open>
  Claim C2, as amended. The layer options of a normalized material have pairwise distinct
  thicknesses, which are exactly the coerced thicknesses of the raw settings; every option
  is built from the first raw setting that has its thickness; and when no thickness is NaN
  the options are in strictly ascending order of thickness.
\<close>

theorem layer_options_first_wins:
  "distinct (map layerThickness (settings (buildMaterial nts idx m))) \<and>
   layerThickness ` set (settings (buildMaterial nts idx m)) =
     setting_thickness ` set (material_settings m) \<and>
   (\<forall>opt \<in> set (settings (buildMaterial nts idx m)).
      \<exists>s. List.find (\<lambda>s. setting_thickness s = layerThickness opt) (material_settings m) = Some s \<and>
          opt = layer_option nts s) \<and>
   (NaN \<notin> setting_thickness ` set (material_settings m) \<longrightarrow>
      sorted_wrt (\<lambda>a b. js_less (layerThickness a) (layerThickness b))
        (settings (buildMaterial nts idx m)))"
proof (intro conjI impI ballI)
  show "distinct (map layerThickness (settings (buildMaterial nts idx m)))"
    by (rule distinct_settings_thickness)
  show "layerThickness ` set (settings (buildMaterial nts idx m)) =
     setting_thickness ` set (material_settings m)"
    by (rule set_settings_thickness)
  show "\<exists>s. List.find (\<lambda>s. setting_thickness s = layerThickness opt) (material_settings m) = Some s \<and>
          opt = layer_option nts s"
    if "opt \<in> set (settings (buildMaterial nts idx m))" for opt
    using that by (rule settings_first_setting)
  show "sorted_wrt (\<lambda>a b. js_less (layerThickness a) (layerThickness b))
        (settings (buildMaterial nts idx m))"
    if "NaN \<notin> setting_thickness ` set (material_settings m)"
  proof (rule strictly_ascending)
    show "distinct (map layerThickness (settings (buildMaterial nts idx m)))"
      by (rule distinct_settings_thickness)
    show "\<forall>x \<in> set (settings (buildMaterial nts idx m)). layerThickness x \<noteq> NaN"
      using that set_settings_thickness[of nts idx m] by (metis imageI)
    show "sorted_wrt (\<lambda>a b. \<not> js_less (layerThickness b) (layerThickness a))
        (settings (buildMaterial nts idx m))"
      using that by (rule settings_sorted_weak)
  qed
qed

theorem layer_options_first_wins_witness:
  "NaN \<notin> setting_thickness ` set (material_settings example_raw_material) \<and>
   map setting_label (material_settings example_raw_material) =
     [''0.100 mm'', ''0.100 mm draft'', ''0.050 mm''] \<and>
   map layer_label (settings (buildMaterial example_numToString example_index example_raw_material)) =
     [''0.050 mm'', ''0.100 mm''] \<and>
   sorted_wrt (\<lambda>a b. js_less (layerThickness a) (layerThickness b))
     (settings (buildMaterial example_numToString example_index example_raw_material))"
proof -
  have h: "NaN \<notin> setting_thickness ` set (material_settings example_raw_material)"
    by code_simp
  have a: "map setting_label (material_settings example_raw_material) =
     [''0.100 mm'', ''0.100 mm draft'', ''0.050 mm'']"
    by code_simp
  have b: "map layer_label (settings (buildMaterial example_numToString example_index example_raw_material)) =
     [''0.050 mm'', ''0.100 mm'']"
    by code_simp
  show ?thesis
    using h a b layer_options_first_wins[of example_numToString example_index example_raw_material]
    by blast
qed

text \<open>
  Claim C2 as stated fails when a thickness is NaN: the option with that thickness stays
  where the order of the raw settings puts it, in front of or behind the option at 0.1.
\<close>

theorem layer_options_ascending_counterexample:
  "map layerThickness (settings (buildMaterial example_numToString example_index example_raw_nan_first)) =
     [NaN, Fin (1 / 10)] \<and>
   map layerThickness (settings (buildMaterial example_numToString example_index example_raw_nan_last)) =
     [Fin (1 / 10), NaN] \<and>
   \<not> sorted_wrt js_less
       (map layerThickness (settings (buildMaterial example_numToString example_index example_raw_nan_first))) \<and>
   \<not> sorted_wrt js_less
       (map layerThickness (settings (buildMaterial example_numToString example_index example_raw_nan_last)))"
  by code_simp

text \<open>
  Claim C3. After a run of the two repair effects the selected material code is the code of
  a filtered material or empty, and the selected thickness is empty or the text of a layer
  option of the selected material. A code that is still among the filtered materials is
  kept; otherwise the code of the first filtered material is selected, or the empty code
  when there is none. With a material selected, a thickness that is still offered is kept,
  otherwise the first offered thickness is selected or the thickness is cleared when the
  material has no option; without a selected material the thickness is cleared. Two runs
  reach a state that further runs leave unchanged, and there the thickness is one offered
  by the selected material unless that material has no option.
\<close>

theorem selection_repair:
  "(let st' = repair numToString printers cm st;
        filtered = current_filtered printers cm st
    in current_filtered printers cm st' = filtered \<and>
       (selectedMaterialCode st' \<in> code ` set (current_filtered printers cm st') \<or>
        selectedMaterialCode st' = []) \<and>
       (selectedThickness st' = [] \<or>
        (\<exists>m. current_material printers cm st' = Some m \<and>
             selectedThickness st' \<in> thickness_values numToString m)) \<and>
       (selectedMaterialCode st \<in> code ` set filtered \<longrightarrow>
          selectedMaterialCode st' = selectedMaterialCode st) \<and>
       (selectedMaterialCode st \<notin> code ` set filtered \<longrightarrow>
          selectedMaterialCode st' = (case filtered of [] \<Rightarrow> [] | m # _ \<Rightarrow> code m)) \<and>
       (\<forall>m. current_material printers cm st = Some m \<longrightarrow>
          selectedThickness st' =
            (if selectedThickness st \<in> thickness_values numToString m then selectedThickness st
             else (case settings m of [] \<Rightarrow> [] | s # _ \<Rightarrow> numToString (layerThickness s)))) \<and>
       (current_material printers cm st = None \<longrightarrow> selectedThickness st' = [])) \<and>
   (let st2 = repair numToString printers cm (repair numToString printers cm st)
    in repair numToString printers cm st2 = st2 \<and>
       (\<forall>m. current_material printers cm st2 = Some m \<longrightarrow>
          selectedThickness st2 \<in> thickness_values numToString m \<or>
          (settings m = [] \<and> selectedThickness st2 = [])))"
proof -
  have t1: "\<forall>m. current_material printers cm st = Some m \<longrightarrow>
          selectedThickness (repair numToString printers cm st) =
            (if selectedThickness st \<in> thickness_values numToString m then selectedThickness st
             else (case settings m of [] \<Rightarrow> [] | s # _ \<Rightarrow> numToString (layerThickness s)))"
    by (simp add: repair_thickness thickness_effect_cases)
  have t2: "current_material printers cm st = None \<longrightarrow>
          selectedThickness (repair numToString printers cm st) = []"
    by (simp add: repair_thickness thickness_effect_None)
  have first: "current_filtered printers cm (repair numToString printers cm st) = current_filtered printers cm st \<and>
       (selectedMaterialCode (repair numToString printers cm st)
          \<in> code ` set (current_filtered printers cm (repair numToString printers cm st)) \<or>
        selectedMaterialCode (repair numToString printers cm st) = []) \<and>
       (selectedThickness (repair numToString printers cm st) = [] \<or>
        (\<exists>m. current_material printers cm (repair numToString printers cm st) = Some m \<and>
             selectedThickness (repair numToString printers cm st) \<in> thickness_values numToString m)) \<and>
       (selectedMaterialCode st \<in> code ` set (current_filtered printers cm st) \<longrightarrow>
          selectedMaterialCode (repair numToString printers cm st) = selectedMaterialCode st) \<and>
       (selectedMaterialCode st \<notin> code ` set (current_filtered printers cm st) \<longrightarrow>
          selectedMaterialCode (repair numToString printers cm st) =
            (case current_filtered printers cm st of [] \<Rightarrow> [] | m # _ \<Rightarrow> code m))"
    using repair_filtered[of printers cm numToString st] repair_code_valid[of numToString printers cm st]
      repair_thickness_valid[of numToString printers cm st]
      repair_code_kept[of st printers cm numToString] repair_code_reset[of st printers cm numToString]
    by blast
  have second: "repair numToString printers cm (repair numToString printers cm (repair numToString printers cm st)) =
      repair numToString printers cm (repair numToString printers cm st) \<and>
       (\<forall>m. current_material printers cm (repair numToString printers cm (repair numToString printers cm st)) = Some m \<longrightarrow>
          selectedThickness (repair numToString printers cm (repair numToString printers cm st))
             \<in> thickness_values numToString m \<or>
          (settings m = [] \<and> selectedThickness (repair numToString printers cm (repair numToString printers cm st)) = []))"
    using repair_settles[of numToString printers cm st] repair_settled_thickness[of printers cm numToString st]
    by blast
  show ?thesis
    unfolding Let_def using first t1 t2 second by blast
qed

theorem selection_repair_witness:
  "selectedMaterialCode example_state
     \<notin> code ` set (current_filtered example_printers example_codeMap example_state) \<and>
   selectedMaterialCode (repair example_numToString example_printers example_codeMap example_state) =
     ''RS-F2-CW'' \<and>
   current_material example_printers example_codeMap example_state = None \<and>
   selectedThickness (repair example_numToString example_printers example_codeMap example_state) = [] \<and>
   current_material example_printers example_codeMap
     (repair example_numToString example_printers example_codeMap
        (repair example_numToString example_printers example_codeMap example_state)) =
     Some (hd (materials (hd example_printers))) \<and>
   settings (hd (materials (hd example_printers))) \<noteq> [] \<and>
   selectedThickness
     (repair example_numToString example_printers example_codeMap
        (repair example_numToString example_printers example_codeMap example_state))
     \<in> thickness_values example_numToString (hd (materials (hd example_printers)))"
proof -
  note T = selection_repair[of example_numToString example_printers example_codeMap example_state,
      unfolded Let_def]
  have h: "selectedMaterialCode example_state
     \<notin> code ` set (current_filtered example_printers example_codeMap example_state)"
    by code_simp
  have f: "(case current_filtered example_printers example_codeMap example_state of
              [] \<Rightarrow> [] | m # _ \<Rightarrow> code m) = ''RS-F2-CW''"
    by code_simp
  have c: "selectedMaterialCode (repair example_numToString example_printers example_codeMap example_state) =
     ''RS-F2-CW''"
    using T h f by simp
  have n: "current_material example_printers example_codeMap example_state = None"
    by code_simp
  have t: "selectedThickness (repair example_numToString example_printers example_codeMap example_state) = []"
    using T n by blast
  have m2: "current_material example_printers example_codeMap
     (repair example_numToString example_printers example_codeMap
        (repair example_numToString example_printers example_codeMap example_state)) =
     Some (hd (materials (hd example_printers)))"
    by code_simp
  have ne: "settings (hd (materials (hd example_printers))) \<noteq> []"
    by code_simp
  have t2: "selectedThickness
     (repair example_numToString example_printers example_codeMap
        (repair example_numToString example_printers example_codeMap example_state))
     \<in> thickness_values example_numToString (hd (materials (hd example_printers)))"
    using T m2 ne by blast
  show ?thesis using h c n t m2 ne t2 by blast
qed

text \<open>
  Claim C4. With a printer selected: when no category filter is selected the filtered
  materials are all materials of the printer; otherwise they are, in the printer's order,
  exactly the materials whose code is in the aggregated codes of at least one selected
  category id.
\<close>

theorem filtered_materials_union:
  "filteredMaterials (Some printer) ids categoryCodeMap =
     (if ids = [] then materials printer
      else filter (\<lambda>material. \<exists>i \<in> set ids. code material \<in> set (codes_of_category categoryCodeMap i))
             (materials printer))"
proof (cases "ids = []")
  case True
  then show ?thesis by (simp add: filteredMaterials_def)
next
  case False
  have "set (foldl (\<lambda>allowed ident. foldl set_add allowed
               (case categoryCodeMap ident of None \<Rightarrow> [] | Some cs \<Rightarrow> cs)) [] ids) =
          (\<Union>i \<in> set ids. set (codes_of_category categoryCodeMap i))"
    unfolding codes_of_category_def by (simp add: set_allowed_codes)
  then show ?thesis using False by (simp add: filteredMaterials_def Let_def)
qed

theorem filtered_materials_union_witness:
  "map code (materials (hd example_printers)) = [''RS-F2-CW'', ''RS-F2-DM'', ''RS-F2-GP''] \<and>
   codes_of_category example_codeMap ''dental'' = [''RS-F2-DM'', ''RS-F2-IND''] \<and>
   codes_of_category example_codeMap ''castable'' = [''RS-F2-CW''] \<and>
   map code (filteredMaterials (Some (hd example_printers)) [''dental'', ''castable''] example_codeMap) =
     [''RS-F2-CW'', ''RS-F2-DM'']"
proof -
  have a: "map code (materials (hd example_printers)) = [''RS-F2-CW'', ''RS-F2-DM'', ''RS-F2-GP'']"
    by code_simp
  have b: "codes_of_category example_codeMap ''dental'' = [''RS-F2-DM'', ''RS-F2-IND'']"
    by code_simp
  have c: "codes_of_category example_codeMap ''castable'' = [''RS-F2-CW'']"
    by code_simp
  have "map code
          (filter (\<lambda>material. \<exists>i \<in> set [''dental'', ''castable''].
                     code material \<in> set (codes_of_category example_codeMap i))
             (materials (hd example_printers))) = [''RS-F2-CW'', ''RS-F2-DM'']"
    by code_simp
  then have "map code (filteredMaterials (Some (hd example_printers)) [''dental'', ''castable''] example_codeMap) =
     [''RS-F2-CW'', ''RS-F2-DM'']"
    using filtered_materials_union[of "hd example_printers" "[''dental'', ''castable'']" example_codeMap]
    by simp
  then show ?thesis using a b c by blast
qed




text \<open>
  Claim C6, as amended. For every layer option whose thickness is a finite number, the
  exported text is the object with the three fields \<open>machine_type\<close>, \<open>material_code\<close>,
  \<open>layer_thickness_mm\<close> in this order, one member per line behind two spaces, and parsing
  the text gives back an object with exactly these three members and the original values.
  The host's conversions of the number are taken to agree: the text of the thickness is a
  non-empty number token that is read back as the thickness.
\<close>

theorem scene_payload_round_trip:
  assumes "layer_thickness_mm sc = Fin r"
    and "numToString (Fin r) \<noteq> []"
    and "\<forall>c \<in> set (numToString (Fin r)). is_number_char c"
    and "parseNumber (numToString (Fin r)) = Some (Fin r)"
  shows "scene_payload numToString sc =
           ''{'' @ [newline] @
           ''  '' @ QuoteJSONString ''machine_type'' @ '': '' @ QuoteJSONString (machine_type sc) @
             '','' @ [newline] @
           ''  '' @ QuoteJSONString ''material_code'' @ '': '' @ QuoteJSONString (material_code sc) @
             '','' @ [newline] @
           ''  '' @ QuoteJSONString ''layer_thickness_mm'' @ '': '' @ numToString (Fin r) @
           [newline] @ ''}'' \<and>
         JSON_parse parseNumber (scene_payload numToString sc) =
           Some (JObj [(''machine_type'', JStr (machine_type sc)),
                       (''material_code'', JStr (material_code sc)),
                       (''layer_thickness_mm'', JNum (layer_thickness_mm sc))])"
proof
  have nt: "number_text numToString (layer_thickness_mm sc) = numToString (Fin r)"
    using assms(1) by (simp add: number_text_def)
  show "scene_payload numToString sc =
           ''{'' @ [newline] @
           ''  '' @ QuoteJSONString ''machine_type'' @ '': '' @ QuoteJSONString (machine_type sc) @
             '','' @ [newline] @
           ''  '' @ QuoteJSONString ''material_code'' @ '': '' @ QuoteJSONString (material_code sc) @
             '','' @ [newline] @
           ''  '' @ QuoteJSONString ''layer_thickness_mm'' @ '': '' @ numToString (Fin r) @
           [newline] @ ''}''"
    unfolding scene_payload_text nt ..
  have v: "parse_scalar parseNumber (number_text numToString (Fin r) @ [newline] @ ''}'') =
           Some (JNum (Fin r), [newline] @ ''}'')"
    using assms(2-4) by (rule parse_scalar_finite)
  have t: "number_text numToString (Fin r) \<noteq> []" "\<not> is_ws (hd (number_text numToString (Fin r)))"
    using assms(2,3) number_char_not_ws[of "hd (numToString (Fin r))"]
    by (auto simp: number_text_def)
  show "JSON_parse parseNumber (scene_payload numToString sc) =
           Some (JObj [(''machine_type'', JStr (machine_type sc)),
                       (''material_code'', JStr (material_code sc)),
                       (''layer_thickness_mm'', JNum (layer_thickness_mm sc))])"
    unfolding scene_payload_text assms(1) parse_three_members[OF v t]
    using payload_keys_distinct by simp
qed

theorem scene_payload_round_trip_witness:
  "layer_thickness_mm example_scene = Fin (1 / 10) \<and>
   example_numToString (Fin (1 / 10)) = ''0.1'' \<and>
   example_parseNumber ''0.1'' = Some (Fin (1 / 10)) \<and>
   JSON_parse example_parseNumber (scene_payload example_numToString example_scene) =
     Some (JObj [(''machine_type'', JStr ''FORM-4-0''),
                 (''material_code'', JStr ''RS-F2-DM''),
                 (''layer_thickness_mm'', JNum (Fin (1 / 10)))])"
proof -
  have a: "layer_thickness_mm example_scene = Fin (1 / 10)"
    by (simp add: example_scene_def)
  have n: "example_numToString (Fin (1 / 10)) = ''0.1''"
    by (simp add: example_numToString_def)
  have b: "example_numToString (Fin (1 / 10)) \<noteq> []"
    unfolding n by simp
  have c: "\<forall>c \<in> set (example_numToString (Fin (1 / 10))). is_number_char c"
    unfolding n by (simp add: is_number_char_def)
  have p: "example_parseNumber ''0.1'' = Some (Fin (1 / 10))"
    by (simp add: example_parseNumber_def)
  have d: "example_parseNumber (example_numToString (Fin (1 / 10))) = Some (Fin (1 / 10))"
    unfolding n by (rule p)
  have "JSON_parse example_parseNumber (scene_payload example_numToString example_scene) =
     Some (JObj [(''machine_type'', JStr (machine_type example_scene)),
                 (''material_code'', JStr (material_code example_scene)),
                 (''layer_thickness_mm'', JNum (layer_thickness_mm example_scene))])"
    using scene_payload_round_trip[where sc = example_scene and r = "1 / 10"
        and numToString = example_numToString and parseNumber = example_parseNumber, OF a b c d]
    by (rule conjunct2)
  then show ?thesis
    using a n p by (simp add: example_scene_def)
qed

text \<open>
  Claim C6 as stated fails at a layer option whose thickness is NaN, such as the one the
  normalizer builds from settings without a usable thickness: the text carries \<open>null\<close>,
  and parsing it gives \<open>null\<close>, not the thickness.
\<close>

theorem scene_payload_round_trip_counterexample:
  "layer_thickness_mm
     (scene (hd (settings (buildMaterial example_numToString example_index example_raw_nan_only)))) = NaN \<and>
   JSON_parse example_parseNumber
     (scene_payload example_numToString
        (scene (hd (settings (buildMaterial example_numToString example_index example_raw_nan_only))))) =
     Some (JObj [(''machine_type'', JStr ''FORM-4-0''),
                 (''material_code'', JStr ''RS-F2-DR''),
                 (''layer_thickness_mm'', JNull)])"
  by code_simp

text \<open>
  Claim C7, as amended. For every category id of the index of a built tree and every
  selected printer, the count is the number of codes among the category's aggregated codes
  that are the code of some material of the printer. This is the number of materials of
  the printer with a code among the aggregated codes when the material codes of the
  printer are pairwise distinct.
\<close>

theorem category_counts_codes:
  assumes "flattenCategoryCodes (buildCategoryTree doc path) ident = Some cs"
  shows "categoryCounts (Some printer) (flattenCategoryCodes (buildCategoryTree doc path)) ident =
           Some (card (set cs \<inter> code ` set (materials printer))) \<and>
         (distinct (map code (materials printer)) \<longrightarrow>
            categoryCounts (Some printer) (flattenCategoryCodes (buildCategoryTree doc path)) ident =
              Some (materials_in_category printer cs))"
proof -
  have d: "distinct cs" using assms by (rule built_codes_distinct)
  have "categoryCounts (Some printer) (flattenCategoryCodes (buildCategoryTree doc path)) ident =
          Some (length (filter (\<lambda>c. c \<in> code ` set (materials printer)) cs))"
    using assms by (simp add: categoryCounts_def Let_def foldl_count set_new_Set)
  also have "length (filter (\<lambda>c. c \<in> code ` set (materials printer)) cs) =
          card ({c. c \<in> code ` set (materials printer)} \<inter> set cs)"
    using d by (rule distinct_length_filter)
  finally have main: "categoryCounts (Some printer) (flattenCategoryCodes (buildCategoryTree doc path)) ident =
           Some (card (set cs \<inter> code ` set (materials printer)))"
    by (simp add: Int_commute)
  show ?thesis
    using main card_codes_materials[of "materials printer" cs]
    by (simp add: materials_in_category_def)
qed

theorem category_counts_codes_witness:
  "flattenCategoryCodes (buildCategoryTree example_taxonomy []) ''dental'' =
     Some [''RS-F2-DM'', ''RS-F2-IND''] \<and>
   distinct (map code (materials (hd example_printers))) \<and>
   materials_in_category (hd example_printers) [''RS-F2-DM'', ''RS-F2-IND''] = 1 \<and>
   categoryCounts (Some (hd example_printers))
     (flattenCategoryCodes (buildCategoryTree example_taxonomy [])) ''dental'' = Some 1"
proof -
  have h: "flattenCategoryCodes (buildCategoryTree example_taxonomy []) ''dental'' =
     Some [''RS-F2-DM'', ''RS-F2-IND'']"
    by code_simp
  have d: "distinct (map code (materials (hd example_printers)))"
    by code_simp
  have m: "materials_in_category (hd example_printers) [''RS-F2-DM'', ''RS-F2-IND''] = 1"
    by code_simp
  have "categoryCounts (Some (hd example_printers))
     (flattenCategoryCodes (buildCategoryTree example_taxonomy [])) ''dental'' =
     Some (materials_in_category (hd example_printers) [''RS-F2-DM'', ''RS-F2-IND''])"
    using category_counts_codes[OF h, of "hd example_printers", THEN conjunct2, rule_format, OF d] .
  then show ?thesis using h d m by simp
qed

text \<open>
  Claim C7 as stated fails on a printer with two materials of one code: the category holds
  both materials and the count is one.
\<close>

theorem category_counts_counterexample:
  "selectedPrinter example_printers_shared_code ''FORM-3-0'' = Some (hd example_printers_shared_code) \<and>
   map code (materials (hd example_printers_shared_code)) = [''RS-F2-DM'', ''RS-F2-DM''] \<and>
   example_codeMap ''dental'' = Some [''RS-F2-DM'', ''RS-F2-IND''] \<and>
   categoryCounts (selectedPrinter example_printers_shared_code ''FORM-3-0'') example_codeMap ''dental''
     = Some 1 \<and>
   materials_in_category (hd example_printers_shared_code) [''RS-F2-DM'', ''RS-F2-IND''] = 2"
  by code_simp

text \<open>
  Claim C8. Every node of a built tree is a leaf (own codes, no children, aggregated codes
  equal to the own codes) or a branch (no own codes, aggregated codes collected from the
  children), and its aggregated codes hold no duplicate.
\<close>

theorem category_node_leaf_or_branch:
  assumes "n \<in> set (all_nodes (buildCategoryTree doc path))"
  shows "((ownCodes n \<noteq> [] \<and> children n = [] \<and> codes n = ownCodes n) \<or>
          (ownCodes n = [] \<and> codes n = dedupe (concat (map codes (children n))) \<and>
           set (codes n) = (\<Union>c \<in> set (children n). set (codes c)))) \<and>
         distinct (codes n)"
proof -
  from assms obtain r where r: "r \<in> set (buildCategoryTree doc path)" and n: "n \<in> set (nodes_of r)"
    by (auto simp: all_nodes_def)
  have inv: "tree_inv n"
    using build_tree_inv[OF r] n by (rule tree_inv_sub)
  show ?thesis
    using inv tree_inv_distinct[OF inv] by (cases n) (auto simp: set_dedupe dedupe_Nil)
qed

theorem category_node_leaf_or_branch_witness:
  "hd (buildCategoryTree example_taxonomy []) \<in> set (all_nodes (buildCategoryTree example_taxonomy [])) \<and>
   ownCodes (hd (buildCategoryTree example_taxonomy [])) = [] \<and>
   codes (hd (buildCategoryTree example_taxonomy [])) = [''RS-F2-DM'', ''RS-F2-IND''] \<and>
   distinct (codes (hd (buildCategoryTree example_taxonomy [])))"
proof -
  have h: "hd (buildCategoryTree example_taxonomy []) \<in> set (all_nodes (buildCategoryTree example_taxonomy []))"
    by code_simp
  have c: "codes (hd (buildCategoryTree example_taxonomy [])) = [''RS-F2-DM'', ''RS-F2-IND'']"
    by code_simp
  have o: "ownCodes (hd (buildCategoryTree example_taxonomy [])) = []"
    by code_simp
  show ?thesis
    using h c o category_node_leaf_or_branch[OF h, THEN conjunct2] by blast
qed

text \<open>
  Claim C9. A raw material with at least one setting, all of whose settings have a
  thickness that coerces to NaN, is normalized to exactly one layer option, the one built
  from its first setting.
\<close>

theorem nan_settings_collapse:
  assumes "material_settings m = first # rest"
    and "\<forall>s \<in> set (material_settings m). setting_thickness s = NaN"
  shows "settings (buildMaterial nts idx m) = [layer_option nts first]"
proof -
  let ?tm = "foldl (add_setting nts) [] (material_settings m)"
  have "map fst ?tm = dedupe (map setting_thickness (material_settings m))"
    by (rule thickness_map_keys)
  also have "\<dots> = dedupe (NaN # map setting_thickness rest)"
    using assms by simp
  also have "\<dots> = [NaN]"
    using assms by (intro dedupe_all_equal) simp
  finally have keys: "map fst ?tm = [NaN]" .
  then obtain opt where tm: "?tm = [(NaN, opt)]"
    by (cases ?tm) auto
  have "(NaN, opt) \<in> set ?tm" using tm by simp
  then obtain s where f: "List.find (\<lambda>s. setting_thickness s = NaN) (material_settings m) = Some s"
    and o: "opt = layer_option nts s"
    using thickness_map_entries by blast
  have "s = first" using f assms by simp
  then show ?thesis
    using tm o unfolding settings_buildMaterial by (simp add: map_values_def js_sort_single)
qed

theorem nan_settings_collapse_witness:
  "material_settings example_raw_nan_only =
     raw_setting ''unknown'' ''FORM-4-0'' ''RS-F2-DR'' NaN #
       [raw_setting ''unknown too'' ''FORM-4-0'' ''RS-F2-DR-B'' NaN] \<and>
   length (material_settings example_raw_nan_only) = 2 \<and>
   settings (buildMaterial example_numToString example_index example_raw_nan_only) =
     [layer_option example_numToString (raw_setting ''unknown'' ''FORM-4-0'' ''RS-F2-DR'' NaN)]"
proof -
  have a: "material_settings example_raw_nan_only =
     raw_setting ''unknown'' ''FORM-4-0'' ''RS-F2-DR'' NaN #
       [raw_setting ''unknown too'' ''FORM-4-0'' ''RS-F2-DR-B'' NaN]"
    by (simp add: example_raw_nan_only_def)
  have b: "\<forall>s \<in> set (material_settings example_raw_nan_only). setting_thickness s = NaN"
    by (simp add: example_raw_nan_only_def raw_setting_def setting_thickness_def Number_def)
  have c: "length (material_settings example_raw_nan_only) = 2"
    by (simp add: example_raw_nan_only_def)
  show ?thesis
    using a c nan_settings_collapse[OF a b, of example_numToString example_index] by blast
qed

text \<open>
  Claim C10. Every layer option of a material with at least one setting is built from one
  of the material's settings: its id, its label and the three scene values, the material
  code among them, are those of that setting. The code of the material and its category
  breadcrumbs come from the first setting alone. So a layer option can carry a material
  code that is not the code of its material.
\<close>

theorem option_code_from_own_setting:
  "(\<forall>(m::RawMaterial) first rest. material_settings m = first # rest \<longrightarrow>
      code (buildMaterial nts idx m) = material_code (scene_settings first) \<and>
      categoryPaths (buildMaterial nts idx m) =
        (case idx (material_code (scene_settings first)) of None \<Rightarrow> [] | Some ps \<Rightarrow> ps) \<and>
      (\<forall>opt \<in> set (settings (buildMaterial nts idx m)).
         \<exists>s \<in> set (material_settings m).
           layer_id opt = material_code (scene_settings s) @ ''-'' @ nts (layerThickness opt) \<and>
           layerThickness opt = Number (layer_thickness_mm (scene_settings s)) \<and>
           machine_type (scene opt) = machine_type (scene_settings s) \<and>
           material_code (scene opt) = material_code (scene_settings s) \<and>
           layer_thickness_mm (scene opt) = layer_thickness_mm (scene_settings s))) \<and>
   (\<exists>m. \<exists>opt \<in> set (settings (buildMaterial nts idx m)).
      material_code (scene opt) \<noteq> code (buildMaterial nts idx m))"
proof (intro conjI allI impI ballI)
  fix m :: RawMaterial and first rest assume ms: "material_settings m = first # rest"
  show c: "code (buildMaterial nts idx m) = material_code (scene_settings first)"
    using ms by (rule buildMaterial_code)
  show "categoryPaths (buildMaterial nts idx m) =
        (case idx (material_code (scene_settings first)) of None \<Rightarrow> [] | Some ps \<Rightarrow> ps)"
    using buildMaterial_paths[of nts idx m] c by simp
  fix opt assume "opt \<in> set (settings (buildMaterial nts idx m))"
  then obtain s where f: "List.find (\<lambda>s. setting_thickness s = layerThickness opt) (material_settings m) = Some s"
    and o: "opt = layer_option nts s"
    using settings_first_setting by blast
  have s: "s \<in> set (material_settings m)"
    using f by (auto simp: find_Some_iff)
  have t: "layerThickness opt = setting_thickness s"
    using o by (simp add: layer_option_thickness)
  show "\<exists>s \<in> set (material_settings m).
           layer_id opt = material_code (scene_settings s) @ ''-'' @ nts (layerThickness opt) \<and>
           layerThickness opt = Number (layer_thickness_mm (scene_settings s)) \<and>
           machine_type (scene opt) = machine_type (scene_settings s) \<and>
           material_code (scene opt) = material_code (scene_settings s) \<and>
           layer_thickness_mm (scene opt) = layer_thickness_mm (scene_settings s)"
    using s t o by (intro bexI[of _ s]) (simp_all add: layer_option_fields setting_thickness_def)
next
  have c: "code (buildMaterial nts idx example_raw_material) = ''RS-F2-DM''"
    by (simp add: buildMaterial_def Let_def example_raw_material_def example_raw_def raw_setting_def)
  have "layer_option nts (raw_setting ''0.050 mm'' ''FORM-4-0'' ''RS-F2-DM-V2'' (Fin (1 / 20)))
          \<in> set (settings (buildMaterial nts idx example_raw_material))"
    unfolding settings_buildMaterial set_js_sort
    by (simp add: example_raw_material_def example_raw_def add_setting_def map_has_def map_set_def
        map_values_def raw_setting_def Number_def Let_def layer_option_def)
  moreover have "material_code (scene (layer_option nts (raw_setting ''0.050 mm'' ''FORM-4-0'' ''RS-F2-DM-V2'' (Fin (1 / 20)))))
      \<noteq> code (buildMaterial nts idx example_raw_material)"
    unfolding c by (simp add: layer_option_fields raw_setting_def)
  ultimately show "\<exists>m. \<exists>opt \<in> set (settings (buildMaterial nts idx m)).
      material_code (scene opt) \<noteq> code (buildMaterial nts idx m)"
    by blast
qed

theorem option_code_from_own_setting_witness:
  "material_settings example_raw_material =
     raw_setting ''0.100 mm'' ''FORM-4-0'' ''RS-F2-DM'' (Fin (1 / 10)) #
       [raw_setting ''0.100 mm draft'' ''FORM-4-0'' ''RS-F2-DM-D'' (Fin (1 / 10)),
        raw_setting ''0.050 mm'' ''FORM-4-0'' ''RS-F2-DM-V2'' (Fin (1 / 20))] \<and>
   code (buildMaterial example_numToString example_index example_raw_material) = ''RS-F2-DM'' \<and>
   hd (settings (buildMaterial example_numToString example_index example_raw_material))
     \<in> set (settings (buildMaterial example_numToString example_index example_raw_material)) \<and>
   material_code (scene (hd (settings (buildMaterial example_numToString example_index example_raw_material))))
     = ''RS-F2-DM-V2'' \<and>
   (\<exists>s \<in> set (material_settings example_raw_material).
      layer_id (hd (settings (buildMaterial example_numToString example_index example_raw_material))) =
        material_code (scene_settings s) @ ''-'' @
          example_numToString
            (layerThickness (hd (settings (buildMaterial example_numToString example_index example_raw_material)))) \<and>
      material_code (scene (hd (settings (buildMaterial example_numToString example_index example_raw_material))))
        = material_code (scene_settings s))"
proof -
  note T = option_code_from_own_setting[of example_numToString example_index, THEN conjunct1, rule_format]
  have a: "material_settings example_raw_material =
     raw_setting ''0.100 mm'' ''FORM-4-0'' ''RS-F2-DM'' (Fin (1 / 10)) #
       [raw_setting ''0.100 mm draft'' ''FORM-4-0'' ''RS-F2-DM-D'' (Fin (1 / 10)),
        raw_setting ''0.050 mm'' ''FORM-4-0'' ''RS-F2-DM-V2'' (Fin (1 / 20))]"
    by (simp add: example_raw_material_def example_raw_def)
  have c: "code (buildMaterial example_numToString example_index example_raw_material) = ''RS-F2-DM''"
    using T[OF a, THEN conjunct1] by (simp add: raw_setting_def)
  have h: "hd (settings (buildMaterial example_numToString example_index example_raw_material))
     \<in> set (settings (buildMaterial example_numToString example_index example_raw_material))"
    by code_simp
  have v: "material_code (scene (hd (settings (buildMaterial example_numToString example_index example_raw_material))))
     = ''RS-F2-DM-V2''"
    by code_simp
  have e: "\<exists>s \<in> set (material_settings example_raw_material).
      layer_id (hd (settings (buildMaterial example_numToString example_index example_raw_material))) =
        material_code (scene_settings s) @ ''-'' @
          example_numToString
            (layerThickness (hd (settings (buildMaterial example_numToString example_index example_raw_material)))) \<and>
      material_code (scene (hd (settings (buildMaterial example_numToString example_index example_raw_material))))
        = material_code (scene_settings s)"
    using T[OF a, THEN conjunct2, THEN conjunct2, rule_format, OF h] by blast
  show ?thesis using a c h v e by blast
qed

end
